theory Spec2Isabelle
  imports Complex_Main "HOL-Library.Sublist"
begin

section \<open>JavaScript numbers\<close>

text \<open>
  A value of the type \<^verbatim>\<open>number\<close> is a double: not-a-number, an infinity, or a finite double,
  which is written as the real it denotes. Arithmetic rounds: \<open>rd x\<close> is the double nearest
  to the real \<open>x\<close>, an infinity when \<open>x\<close> is out of range. The rounding is a parameter of
  every function that computes with numbers, and nothing is assumed of it; \<open>exact\<close> is the
  rounding that leaves every real as it is, and agrees with the doubles on the small whole
  amounts of the examples. The two zeros are one value.
\<close>

datatype number = NaN | NegInf | Num real | PosInf

type_synonym rounding = "real \<Rightarrow> number"

definition exact :: rounding where
  "exact x = Num x"

fun num_neg :: "number \<Rightarrow> number" where
  "num_neg NaN = NaN"
| "num_neg NegInf = PosInf"
| "num_neg PosInf = NegInf"
| "num_neg (Num x) = Num (- x)"

text \<open>\<^verbatim>\<open>a + b\<close>.\<close>

fun num_add :: "rounding \<Rightarrow> number \<Rightarrow> number \<Rightarrow> number" where
  "num_add rd NaN b = NaN"
| "num_add rd a NaN = NaN"
| "num_add rd PosInf NegInf = NaN"
| "num_add rd NegInf PosInf = NaN"
| "num_add rd PosInf b = PosInf"
| "num_add rd a PosInf = PosInf"
| "num_add rd NegInf b = NegInf"
| "num_add rd a NegInf = NegInf"
| "num_add rd (Num x) (Num y) = rd (x + y)"

text \<open>\<^verbatim>\<open>a - b\<close>.\<close>

definition num_sub :: "rounding \<Rightarrow> number \<Rightarrow> number \<Rightarrow> number" where
  "num_sub rd a b = num_add rd a (num_neg b)"

text \<open>\<^verbatim>\<open>Math.abs(a)\<close>.\<close>

fun num_abs :: "number \<Rightarrow> number" where
  "num_abs NaN = NaN"
| "num_abs NegInf = PosInf"
| "num_abs PosInf = PosInf"
| "num_abs (Num x) = Num \<bar>x\<bar>"

text \<open>\<^verbatim>\<open>a > b\<close> and \<^verbatim>\<open>a <= b\<close>: both are false when an operand is not a number.\<close>

fun num_gt :: "number \<Rightarrow> number \<Rightarrow> bool" where
  "num_gt NaN b = False"
| "num_gt a NaN = False"
| "num_gt PosInf PosInf = False"
| "num_gt PosInf b = True"
| "num_gt a PosInf = False"
| "num_gt NegInf b = False"
| "num_gt a NegInf = True"
| "num_gt (Num x) (Num y) = (y < x)"

fun num_le :: "number \<Rightarrow> number \<Rightarrow> bool" where
  "num_le NaN b = False"
| "num_le a NaN = False"
| "num_le NegInf b = True"
| "num_le a PosInf = True"
| "num_le PosInf b = False"
| "num_le a NegInf = False"
| "num_le (Num x) (Num y) = (x \<le> y)"

text \<open>Truthiness of a number: \<open>0\<close> and not-a-number are falsy.\<close>

fun truthy :: "number \<Rightarrow> bool" where
  "truthy NaN = False"
| "truthy (Num x) = (x \<noteq> 0)"
| "truthy NegInf = True"
| "truthy PosInf = True"

text \<open>\<^verbatim>\<open>v || 0\<close> for an optional number: \<^verbatim>\<open>undefined\<close> is falsy too.\<close>

definition or0 :: "number option \<Rightarrow> number" where
  "or0 v = (case v of None \<Rightarrow> Num 0 | Some a \<Rightarrow> if truthy a then a else Num 0)"

text \<open>The sum of a list as the code computes it: from \<open>0\<close>, one addition per element, from
  left to right.\<close>

definition js_sum :: "rounding \<Rightarrow> number list \<Rightarrow> number" where
  "js_sum rd xs = foldl (num_add rd) (Num 0) xs"


section \<open>Data model of the reconciliation page\<close>

text \<open>
  The interfaces of \<^verbatim>\<open>src/app/(dashboard)/bookingcom-check/page.tsx\<close>. Optional fields
  (\<^verbatim>\<open>f?: T\<close>, and fields that the server may send as \<^verbatim>\<open>null\<close>) are options. The field
  \<^verbatim>\<open>_id\<close> is written \<open>b_id\<close> (\<open>p_id\<close> for a property), and a field name used by two
  interfaces carries a prefix in the second one. The \<^verbatim>\<open>net\<close> of a ledger row is
  \<^verbatim>\<open>Number(r["Net"])\<close>, which is not-a-number for a cell that is not numeric.
\<close>

record Property =
  p_id :: string
  name :: string

record Booking =
  b_id :: string
  guestName :: string
  reservationId :: "string option"
  propertyId :: "Property option"
  amount :: number
  expectedPayment :: "number option"
  platform :: string

record CsvRow =
  reference :: string
  guest :: string
  net :: number

datatype Status =
    OK
  | MISSING_IN_DB
  | MISSING_IN_CSV
  | AMOUNT_MISMATCH
  | DUPLICATE_DB_REFERENCE
  | MULTI_PROPERTY_REFERENCE

record ReconciliationRow =
  property :: string
  r_reference :: "string option"
  csvGuest :: "string option"
  dbGuests :: "string list"
  dbRecords :: "Booking list option"
  csvNet :: "number option"
  dbTotal :: "number option"
  dbCount :: nat
  status :: Status

section \<open>Library operations used by the matcher\<close>

text \<open>
  \<^verbatim>\<open>String.prototype.includes\<close>: the search string is looked for at position 0, then 1,
  and so on up to the end of the string.
\<close>

fun str_includes :: "string \<Rightarrow> string \<Rightarrow> bool" where
  "str_includes [] s = (s = [])"
| "str_includes (c # cs) s = (prefix s (c # cs) \<or> str_includes cs s)"

text \<open>
  A JavaScript \<^verbatim>\<open>Set\<close> keeps its elements in insertion order, each once; it is the list of
  its elements in that order. \<^verbatim>\<open>new Set(xs)\<close> adds the elements of \<open>xs\<close> one by one,
  \<^verbatim>\<open>s.size\<close> is the length and \<^verbatim>\<open>[...s]\<close> the list itself.
\<close>

definition Set_add :: "'a list \<Rightarrow> 'a \<Rightarrow> 'a list" where
  "Set_add s x = (if x \<in> set s then s else s @ [x])"

definition new_Set :: "'a list \<Rightarrow> 'a list" where
  "new_Set xs = foldl Set_add [] xs"

section \<open>The matcher\<close>

text \<open>The filter predicate \<^verbatim>\<open>b.reservationId?.includes(csv.reference)\<close>.\<close>

definition matches :: "CsvRow \<Rightarrow> Booking \<Rightarrow> bool" where
  "matches csv b =
     (case reservationId b of None \<Rightarrow> False | Some r \<Rightarrow> str_includes r (reference csv))"

definition matched :: "Booking list \<Rightarrow> CsvRow \<Rightarrow> Booking list" where
  "matched dbBookings csv = filter (matches csv) dbBookings"

text \<open>\<^verbatim>\<open>b.propertyId?.name || "Unknown Property"\<close>: the empty name is falsy as well.\<close>

definition propertyLabel :: "Booking \<Rightarrow> string" where
  "propertyLabel b =
     (case propertyId b of
        None \<Rightarrow> ''Unknown Property''
      | Some p \<Rightarrow> if name p = [] then ''Unknown Property'' else name p)"

text \<open>\<^verbatim>\<open>b.expectedPayment ?? b.amount\<close>.\<close>

definition comparedAmount :: "Booking \<Rightarrow> number" where
  "comparedAmount b = (case expectedPayment b of None \<Rightarrow> amount b | Some e \<Rightarrow> e)"

text \<open>The label of a ledger row with no match, and the label of a cross-property row
  (the warning sign U+26A0 in UTF-8, a space, and the words).\<close>

definition unmatched_label :: string where
  "unmatched_label = ''Unmatched CSV''"

definition cross_property_label :: string where
  "cross_property_label = CHR 0xE2 # CHR 0x9A # CHR 0xA0 # '' Cross-Property Issue''"

text \<open>The row pushed for a ledger row that matches no stored booking (lines 141 to 152).\<close>

definition missing_in_db_row :: "CsvRow \<Rightarrow> ReconciliationRow" where
  "missing_in_db_row csv =
     \<lparr> property = unmatched_label,
       r_reference = Some (reference csv),
       csvGuest = Some (guest csv),
       dbGuests = [],
       dbRecords = None,
       csvNet = Some (net csv),
       dbTotal = None,
       dbCount = 0,
       status = MISSING_IN_DB \<rparr>"

text \<open>The row pushed for a ledger row and its non-empty list \<open>m\<close> of matches
  (lines 156 to 182). The literal \<^verbatim>\<open>0.01\<close> is the double nearest to one hundredth.\<close>

definition matched_row :: "rounding \<Rightarrow> CsvRow \<Rightarrow> Booking list \<Rightarrow> ReconciliationRow" where
  "matched_row rd csv m =
     (let properties = new_Set (map propertyLabel m);
          total = foldl (\<lambda>s b. num_add rd s (comparedAmount b)) (Num 0) m;
          st = (if length properties > 1 then MULTI_PROPERTY_REFERENCE
                else if length m > 1 then DUPLICATE_DB_REFERENCE
                else if num_gt (num_abs (num_sub rd total (net csv))) (rd (1 / 100))
                then AMOUNT_MISMATCH
                else OK)
      in
      \<lparr> property = (if length properties = 1 then properties ! 0 else cross_property_label),
        r_reference = Some (reference csv),
        csvGuest = Some (guest csv),
        dbGuests = map guestName m,
        dbRecords = Some m,
        csvNet = Some (net csv),
        dbTotal = Some total,
        dbCount = length m,
        status = st \<rparr>)"

text \<open>One pass of the first loop: the state is the output so far and \<^verbatim>\<open>usedDbIds\<close>.\<close>

definition csv_step ::
  "rounding \<Rightarrow> Booking list \<Rightarrow> ReconciliationRow list \<times> string set \<Rightarrow> CsvRow
     \<Rightarrow> ReconciliationRow list \<times> string set" where
  "csv_step rd dbBookings st csv =
     (case st of (output, usedDbIds) \<Rightarrow>
        let m = matched dbBookings csv in
        if length m = 0 then (output @ [missing_in_db_row csv], usedDbIds)
        else (output @ [matched_row rd csv m], foldl (\<lambda>u b. insert (b_id b) u) usedDbIds m))"

text \<open>The row pushed by the second loop for a stored booking whose id is not used.\<close>

definition db_row :: "Booking \<Rightarrow> ReconciliationRow" where
  "db_row b =
     \<lparr> property = propertyLabel b,
       r_reference = reservationId b,
       csvGuest = None,
       dbGuests = [guestName b],
       dbRecords = Some [b],
       csvNet = None,
       dbTotal = Some (comparedAmount b),
       dbCount = 1,
       status = MISSING_IN_CSV \<rparr>"

definition db_step :: "string set \<Rightarrow> ReconciliationRow list \<Rightarrow> Booking \<Rightarrow> ReconciliationRow list" where
  "db_step usedDbIds output b = (if b_id b \<notin> usedDbIds then output @ [db_row b] else output)"

text \<open>The whole reconciliation (\<^verbatim>\<open>rows\<close>, lines 132 to 201).\<close>

definition rows :: "rounding \<Rightarrow> Booking list \<Rightarrow> CsvRow list \<Rightarrow> ReconciliationRow list" where
  "rows rd dbBookings csvRows =
     (case foldl (csv_step rd dbBookings) ([], {}) csvRows of
        (output, usedDbIds) \<Rightarrow> foldl (db_step usedDbIds) output dbBookings)"

section \<open>Grouping by property and totals\<close>

text \<open>
  The accumulator of \<^verbatim>\<open>grouped\<close> (lines 206 to 237) is a plain object used as a dictionary
  from property labels to groups: a finite map of its own keys, over the members that every
  object inherits from \<^verbatim>\<open>Object.prototype\<close>. Reading \<^verbatim>\<open>map[label]\<close> finds an own key first
  and an inherited member next. For a label that names an inherited member the test
  \<^verbatim>\<open>!map[label]\<close> fails, no group is created, \<^verbatim>\<open>map[label].rows\<close> is \<^verbatim>\<open>undefined\<close> and the
  call of \<^verbatim>\<open>push\<close> raises a \<^verbatim>\<open>TypeError\<close>.
\<close>

datatype js_error = TypeError

definition Object_prototype_members :: "string list" where
  "Object_prototype_members =
     [''constructor'', ''__defineGetter__'', ''__defineSetter__'', ''hasOwnProperty'',
      ''__lookupGetter__'', ''__lookupSetter__'', ''isPrototypeOf'', ''propertyIsEnumerable'',
      ''toString'', ''valueOf'', ''__proto__'', ''toLocaleString'']"

record Group =
  g_rows :: "ReconciliationRow list"
  safeTotal :: number
  csvTotal :: number
  g_dbTotal :: number

definition new_group :: Group where
  "new_group = \<lparr> g_rows = [], safeTotal = Num 0, csvTotal = Num 0, g_dbTotal = Num 0 \<rparr>"

text \<open>The updates of the group of a row (lines 226 to 233).\<close>

definition add_row :: "rounding \<Rightarrow> Group \<Rightarrow> ReconciliationRow \<Rightarrow> Group" where
  "add_row rd g r =
     (let g1 = g\<lparr> g_rows := g_rows g @ [r] \<rparr>;
          g2 = g1\<lparr> csvTotal := num_add rd (csvTotal g1) (or0 (csvNet r)) \<rparr>;
          g3 = g2\<lparr> g_dbTotal := num_add rd (g_dbTotal g2) (or0 (dbTotal r)) \<rparr>
      in if status r = OK
         then g3\<lparr> safeTotal := num_add rd (safeTotal g3) (or0 (csvNet r)) \<rparr>
         else g3)"

text \<open>One pass of the loop: the group is created when \<^verbatim>\<open>map[r.property]\<close> is falsy, that is
  when the label is neither an own key nor an inherited member.\<close>

definition group_step ::
  "rounding \<Rightarrow> (string \<rightharpoonup> Group) \<Rightarrow> ReconciliationRow \<Rightarrow> js_error + (string \<rightharpoonup> Group)" where
  "group_step rd m r =
     (let m1 = (if m (property r) = None \<and> property r \<notin> set Object_prototype_members
                then m(property r \<mapsto> new_group) else m)
      in case m1 (property r) of
           None \<Rightarrow> Inl TypeError
         | Some g \<Rightarrow> Inr (m1(property r \<mapsto> add_row rd g r)))"

fun grouped_loop ::
  "rounding \<Rightarrow> (string \<rightharpoonup> Group) \<Rightarrow> ReconciliationRow list \<Rightarrow> js_error + (string \<rightharpoonup> Group)" where
  "grouped_loop rd m [] = Inr m"
| "grouped_loop rd m (r # rs) =
     (case group_step rd m r of Inl e \<Rightarrow> Inl e | Inr m' \<Rightarrow> grouped_loop rd m' rs)"

definition grouped :: "rounding \<Rightarrow> ReconciliationRow list \<Rightarrow> js_error + (string \<rightharpoonup> Group)" where
  "grouped rd rs = grouped_loop rd Map.empty rs"

section \<open>Stored documents and the route handlers\<close>

text \<open>
  A request body is any JSON object, so each field of the schema of
  \<^verbatim>\<open>src/models/Booking.ts\<close> may be missing. The fields carry the prefix \<open>d_\<close>. A field that is
  present holds a value of the type of the schema: a value that does not cast to that type
  is not represented. Enumerations are strings, dates are milliseconds, and an identifier is
  an \<^verbatim>\<open>ObjectId\<close>, a number of 96 bits. A stored document is a body with its \<^verbatim>\<open>_id\<close>.
\<close>

datatype ObjectId = ObjectId nat

record BookingData =
  d_guestName :: "string option"
  d_email :: "string option"
  d_phone :: "string option"
  d_idNumber :: "string option"
  d_reservationId :: "string option"
  d_unitType :: "string option"
  d_propertyId :: "ObjectId option"
  d_roomId :: "ObjectId option"
  d_platform :: "string option"
  d_paymentMethod :: "string option"
  d_amount :: "number option"
  d_expectedPayment :: "number option"
  d_paymentDate :: "int option"
  d_checkInDate :: "int option"
  d_checkOutDate :: "int option"
  d_status :: "string option"

record IBooking = BookingData +
  d_id :: ObjectId

text \<open>The enumerations that the schema declares (lines 48 to 58 and 72 to 76).\<close>

definition platform_enum :: "string list" where
  "platform_enum = [''Booking.com'', ''Agoda'', ''Airbnb'', ''Expedia'', ''Direct'']"

definition paymentMethod_enum :: "string list" where
  "paymentMethod_enum = [''online'', ''bank'', ''cash'', ''card'']"

definition status_enum :: "string list" where
  "status_enum = [''booked'', ''checkin'', ''checkout'', ''cancel'']"

definition status_in_enum :: "IBooking list \<Rightarrow> bool" where
  "status_in_enum db = (\<forall>b \<in> set db. \<exists>s \<in> set status_enum. d_status b = Some s)"

subsection \<open>Income totals\<close>

record Totals =
  booking :: number
  agoda :: number
  airbnb :: number
  expedia :: number
  directBank :: number
  directCash :: number
  netTotal :: number

definition zero_totals :: Totals where
  "zero_totals = \<lparr> booking = Num 0, agoda = Num 0, airbnb = Num 0, expedia = Num 0,
                    directBank = Num 0, directCash = Num 0, netTotal = Num 0 \<rparr>"

text \<open>The effect of one record on \<^verbatim>\<open>totals\<close> (\<^verbatim>\<open>src/app/api/income/route.ts\<close>, lines 85 to
  106): the \<^verbatim>\<open>switch\<close> has no default, and the case \<^verbatim>\<open>"Direct"\<close> has two tests in a row.\<close>

definition totals_step :: "rounding \<Rightarrow> Totals \<Rightarrow> IBooking \<Rightarrow> Totals" where
  "totals_step rd t b =
     (let a = or0 (d_amount b);
          t1 = t\<lparr> netTotal := num_add rd (netTotal t) a \<rparr>
      in
      if d_platform b = Some ''Booking.com'' then t1\<lparr> booking := num_add rd (booking t1) a \<rparr>
      else if d_platform b = Some ''Agoda'' then t1\<lparr> agoda := num_add rd (agoda t1) a \<rparr>
      else if d_platform b = Some ''Airbnb'' then t1\<lparr> airbnb := num_add rd (airbnb t1) a \<rparr>
      else if d_platform b = Some ''Expedia'' then t1\<lparr> expedia := num_add rd (expedia t1) a \<rparr>
      else if d_platform b = Some ''Direct'' then
        (let t2 = (if d_paymentMethod b = Some ''bank''
                   then t1\<lparr> directBank := num_add rd (directBank t1) a \<rparr> else t1);
             t3 = (if d_paymentMethod b = Some ''cash''
                   then t2\<lparr> directCash := num_add rd (directCash t2) a \<rparr> else t2)
         in t3)
      else t1)"

definition income_totals :: "rounding \<Rightarrow> IBooking list \<Rightarrow> Totals" where
  "income_totals rd records = foldl (totals_step rd) zero_totals records"

subsection \<open>Creating and updating a booking\<close>

text \<open>
  The handlers of \<^verbatim>\<open>src/app/api/bookings/route.ts\<close> over a collection that is the list of
  its documents. A response is the JSON of a document (or of \<^verbatim>\<open>null\<close>), or an error
  message with its HTTP status. The connection and the parsing of the body are taken to
  succeed. An exception of the collection is an error value, which the handler turns into
  its response 500.
\<close>

datatype Response = Json "IBooking option" | Error string nat

datatype db_error = ValidationError | DuplicateKeyError | CastError

text \<open>The decimal digits of a number, as a template literal prints it.\<close>

definition digit_char :: "nat \<Rightarrow> char" where
  "digit_char d = ''0123456789'' ! d"

fun decimal :: "nat \<Rightarrow> string" where
  "decimal n = (if n < 10 then [digit_char n] else decimal (n div 10) @ [digit_char (n mod 10)])"

declare decimal.simps [simp del]

text \<open>\<^verbatim>\<open>`AUTO-${Date.now()}-${Math.floor(Math.random() * 1000)}`\<close>, from the clock \<open>now\<close>
  and the random number \<open>rnd\<close> below 1000.\<close>

definition auto_reservationId :: "nat \<Rightarrow> nat \<Rightarrow> string" where
  "auto_reservationId now rnd = ''AUTO-'' @ decimal now @ ''-'' @ decimal rnd"

text \<open>\<^verbatim>\<open>s || d\<close> for an optional string: \<^verbatim>\<open>undefined\<close> and the empty string are falsy.\<close>

definition or_str :: "string option \<Rightarrow> string \<Rightarrow> string" where
  "or_str v d = (case v of None \<Rightarrow> d | Some s \<Rightarrow> if s = [] then d else s)"

text \<open>\<^verbatim>\<open>Booking.findOne({ reservationId, status: { $ne: "cancel" } })\<close>.\<close>

definition findOne_active :: "string \<Rightarrow> IBooking list \<Rightarrow> IBooking option" where
  "findOne_active rid db =
     find (\<lambda>b. d_reservationId b = Some rid \<and> d_status b \<noteq> Some ''cancel'') db"

text \<open>
  The validators of the schema (\<^verbatim>\<open>src/models/Booking.ts\<close>, lines 27 to 77): a required
  field is present, and not empty when it is a string; an enumerated field that is present
  holds a value of its enumeration; a number is not not-a-number.
\<close>

definition schema_valid :: "BookingData \<Rightarrow> bool" where
  "schema_valid doc =
     ((case d_guestName doc of None \<Rightarrow> False | Some s \<Rightarrow> s \<noteq> [])
      \<and> d_propertyId doc \<noteq> None
      \<and> (case d_platform doc of None \<Rightarrow> False | Some s \<Rightarrow> s \<in> set platform_enum)
      \<and> (case d_paymentMethod doc of None \<Rightarrow> False | Some s \<Rightarrow> s \<in> set paymentMethod_enum)
      \<and> (case d_amount doc of None \<Rightarrow> False | Some a \<Rightarrow> a \<noteq> NaN)
      \<and> (case d_expectedPayment doc of None \<Rightarrow> True | Some a \<Rightarrow> a \<noteq> NaN)
      \<and> d_checkInDate doc \<noteq> None
      \<and> d_checkOutDate doc \<noteq> None
      \<and> (case d_status doc of None \<Rightarrow> True | Some s \<Rightarrow> s \<in> set status_enum))"

text \<open>
  \<^verbatim>\<open>Booking.create(doc)\<close>: the document is validated, then inserted under the identifier
  \<open>newId\<close> that the driver generates. The schema declares \<^verbatim>\<open>reservationId\<close> unique
  (line 34), so the index of the collection refuses a reference that a stored document
  holds, whatever the status of that document.
\<close>

definition Booking_create ::
  "IBooking list \<Rightarrow> BookingData \<Rightarrow> ObjectId \<Rightarrow> db_error + (IBooking \<times> IBooking list)" where
  "Booking_create db doc newId =
     (if \<not> schema_valid doc then Inl ValidationError
      else if \<exists>b \<in> set db. d_reservationId b = d_reservationId doc then Inl DuplicateKeyError
      else (let created = BookingData.extend doc (IBooking.fields newId)
            in Inr (created, db @ [created])))"

definition POST ::
  "nat \<Rightarrow> nat \<Rightarrow> ObjectId \<Rightarrow> IBooking list \<Rightarrow> BookingData \<Rightarrow> Response \<times> IBooking list" where
  "POST now rnd newId db data =
     (let rid = or_str (d_reservationId data) (auto_reservationId now rnd) in
      case findOne_active rid db of
        Some existing \<Rightarrow> (Error ''Reservation ID already exists'' 409, db)
      | None \<Rightarrow>
          (case Booking_create db
                  (data\<lparr> d_reservationId := Some rid,
                         d_status := Some (or_str (d_status data) ''booked'') \<rparr>) newId of
             Inl e \<Rightarrow> (Error ''Failed to create booking'' 500, db)
           | Inr (created, db') \<Rightarrow> (Json (Some created), db')))"

text \<open>
  An identifier of a request body: missing (or falsy), a value that does not cast to an
  \<^verbatim>\<open>ObjectId\<close>, or an \<^verbatim>\<open>ObjectId\<close>.
\<close>

datatype IdParam = NoId | BadId | AnId ObjectId

record PatchBody =
  bookingId :: IdParam
  action :: "string option"
  roomId :: IdParam

text \<open>\<^verbatim>\<open>Booking.findByIdAndUpdate(id, update, { new: true })\<close>: the document with this id is
  updated and returned, \<^verbatim>\<open>null\<close> when there is none. Update validators are off by default,
  so the update is written as it is. An identifier that does not cast is an exception.\<close>

fun update_by_id ::
  "ObjectId \<Rightarrow> (IBooking \<Rightarrow> IBooking) \<Rightarrow> IBooking list \<Rightarrow> IBooking option \<times> IBooking list" where
  "update_by_id i f [] = (None, [])"
| "update_by_id i f (b # bs) =
     (if d_id b = i then (Some (f b), f b # bs)
      else (case update_by_id i f bs of (r, bs') \<Rightarrow> (r, b # bs')))"

definition findByIdAndUpdate ::
  "IdParam \<Rightarrow> (IBooking \<Rightarrow> IBooking) \<Rightarrow> IBooking list
     \<Rightarrow> db_error + (IBooking option \<times> IBooking list)" where
  "findByIdAndUpdate bid f db =
     (case bid of
        AnId i \<Rightarrow> Inr (update_by_id i f db)
      | _ \<Rightarrow> Inl CastError)"

text \<open>The answer of \<open>PATCH\<close> to the outcome of its update.\<close>

definition patch_response ::
  "IBooking list \<Rightarrow> db_error + (IBooking option \<times> IBooking list) \<Rightarrow> Response \<times> IBooking list" where
  "patch_response db res =
     (case res of
        Inl e \<Rightarrow> (Error ''Failed to update booking'' 500, db)
      | Inr (updated, db') \<Rightarrow> (Json updated, db'))"

text \<open>
  \<open>PATCH\<close> (lines 175 to 215). For the action \<^verbatim>\<open>assign\<close> the update \<^verbatim>\<open>{ roomId }\<close> is empty
  when the body has no \<^verbatim>\<open>roomId\<close>. For any other action than the three, \<^verbatim>\<open>booking\<close> stays
  \<^verbatim>\<open>undefined\<close>, which \<^verbatim>\<open>NextResponse.json\<close> cannot serialise: the exception is caught and the
  answer is the response 500.
\<close>

definition PATCH :: "IBooking list \<Rightarrow> PatchBody \<Rightarrow> Response \<times> IBooking list" where
  "PATCH db body =
     (if bookingId body = NoId then (Error ''bookingId required'' 400, db)
      else if action body = Some ''assign'' then
        (case roomId body of
           NoId \<Rightarrow> patch_response db (findByIdAndUpdate (bookingId body) (\<lambda>b. b) db)
         | BadId \<Rightarrow> (Error ''Failed to update booking'' 500, db)
         | AnId r \<Rightarrow>
             patch_response db
               (findByIdAndUpdate (bookingId body) (\<lambda>b. b\<lparr> d_roomId := Some r \<rparr>) db))
      else if action body = Some ''checkin'' then
        patch_response db
          (findByIdAndUpdate (bookingId body) (\<lambda>b. b\<lparr> d_status := Some ''checked_in'' \<rparr>) db)
      else if action body = Some ''checkout'' then
        patch_response db
          (findByIdAndUpdate (bookingId body) (\<lambda>b. b\<lparr> d_status := Some ''checked_out'' \<rparr>) db)
      else (Error ''Failed to update booking'' 500, db))"

section \<open>Derived notions used in the statements\<close>

text \<open>The row that the first loop pushes for a ledger row, and the final value of
  \<^verbatim>\<open>usedDbIds\<close>: the identifiers of the stored bookings matched by some ledger row.\<close>

definition csv_row :: "rounding \<Rightarrow> Booking list \<Rightarrow> CsvRow \<Rightarrow> ReconciliationRow" where
  "csv_row rd dbBookings csv =
     (let m = matched dbBookings csv in
      if length m = 0 then missing_in_db_row csv else matched_row rd csv m)"

definition usedIds :: "Booking list \<Rightarrow> CsvRow list \<Rightarrow> string set" where
  "usedIds dbBookings csvRows = (\<Union>c \<in> set csvRows. b_id ` set (matched dbBookings c))"

text \<open>The group that the aggregation holds for the rows \<open>rp\<close> of one label.\<close>

definition group_of :: "rounding \<Rightarrow> ReconciliationRow list \<Rightarrow> Group" where
  "group_of rd rp =
     \<lparr> g_rows = rp,
       safeTotal = js_sum rd (map (\<lambda>r. or0 (csvNet r)) (filter (\<lambda>r. status r = OK) rp)),
       csvTotal = js_sum rd (map (\<lambda>r. or0 (csvNet r)) rp),
       g_dbTotal = js_sum rd (map (\<lambda>r. or0 (dbTotal r)) rp) \<rparr>"

text \<open>The groups of an aggregation that returns, and the group of a label in an
  aggregation: none when the aggregation raises or has no group of this label.\<close>

definition groups_of :: "rounding \<Rightarrow> ReconciliationRow list \<Rightarrow> (string \<rightharpoonup> Group)" where
  "groups_of rd rs =
     (\<lambda>p. if filter (\<lambda>r. property r = p) rs = [] then None
          else Some (group_of rd (filter (\<lambda>r. property r = p) rs)))"

definition group_at :: "rounding \<Rightarrow> ReconciliationRow list \<Rightarrow> string \<Rightarrow> Group option" where
  "group_at rd rs p = (case grouped rd rs of Inl e \<Rightarrow> None | Inr mp \<Rightarrow> mp p)"

text \<open>The sum, as the code computes it, of the collected amounts (\<^verbatim>\<open>b.amount || 0\<close>) of the
  records that satisfy \<open>P\<close>.\<close>

definition bucket_sum :: "rounding \<Rightarrow> (IBooking \<Rightarrow> bool) \<Rightarrow> IBooking list \<Rightarrow> number" where
  "bucket_sum rd P records = js_sum rd (map (\<lambda>b. or0 (d_amount b)) (filter P records))"

text \<open>The conditions under which a record is added to each of the six buckets, in the order
  of the fields of \<^verbatim>\<open>totals\<close>, and the number of buckets that a record is added to.\<close>

definition bucket_conditions :: "(IBooking \<Rightarrow> bool) list" where
  "bucket_conditions =
     [\<lambda>b. d_platform b = Some ''Booking.com'',
      \<lambda>b. d_platform b = Some ''Agoda'',
      \<lambda>b. d_platform b = Some ''Airbnb'',
      \<lambda>b. d_platform b = Some ''Expedia'',
      \<lambda>b. d_platform b = Some ''Direct'' \<and> d_paymentMethod b = Some ''bank'',
      \<lambda>b. d_platform b = Some ''Direct'' \<and> d_paymentMethod b = Some ''cash'']"

definition buckets_of :: "IBooking \<Rightarrow> nat" where
  "buckets_of b = length (filter (\<lambda>P. P b) bucket_conditions)"

text \<open>The records that reach no platform bucket.\<close>

definition in_no_bucket :: "IBooking \<Rightarrow> bool" where
  "in_no_bucket b =
     (d_platform b \<notin> {Some ''Booking.com'', Some ''Agoda'', Some ''Airbnb'', Some ''Expedia''}
      \<and> \<not> (d_platform b = Some ''Direct''
             \<and> (d_paymentMethod b = Some ''bank'' \<or> d_paymentMethod b = Some ''cash'')))"

section \<open>Example data\<close>

text \<open>The stored record and the ledger rows of the examples of the specification, and a few
  more. The second property has the name of the first.\<close>

definition ex_beach :: Property where "ex_beach = \<lparr> p_id = ''p1'', name = ''Beach House'' \<rparr>"
definition ex_city :: Property where "ex_city = \<lparr> p_id = ''p2'', name = ''City Flat'' \<rparr>"
definition ex_beach_twin :: Property where
  "ex_beach_twin = \<lparr> p_id = ''p3'', name = ''Beach House'' \<rparr>"
definition ex_unmatched_named :: Property where
  "ex_unmatched_named = \<lparr> p_id = ''p9'', name = ''Unmatched CSV'' \<rparr>"
definition ex_constructor_named :: Property where
  "ex_constructor_named = \<lparr> p_id = ''p8'', name = ''constructor'' \<rparr>"

definition ex_b1 :: Booking where
  "ex_b1 = \<lparr> b_id = ''b1'', guestName = ''Ann'', reservationId = Some ''BDC-1001-A'',
             propertyId = Some ex_beach, amount = Num 170, expectedPayment = Some (Num 150),
             platform = ''Booking.com'' \<rparr>"
definition ex_b2 :: Booking where
  "ex_b2 = \<lparr> b_id = ''b2'', guestName = ''Bob'', reservationId = Some ''BDC-2002'',
             propertyId = Some ex_beach, amount = Num 90, expectedPayment = None,
             platform = ''Booking.com'' \<rparr>"
definition ex_b3 :: Booking where
  "ex_b3 = \<lparr> b_id = ''b3'', guestName = ''Cid'', reservationId = Some ''X-1001'',
             propertyId = Some ex_city, amount = Num 60, expectedPayment = None,
             platform = ''Booking.com'' \<rparr>"
definition ex_b4 :: Booking where
  "ex_b4 = \<lparr> b_id = ''b4'', guestName = ''Dan'', reservationId = None,
             propertyId = None, amount = Num 40, expectedPayment = None,
             platform = ''Booking.com'' \<rparr>"
definition ex_b5 :: Booking where
  "ex_b5 = \<lparr> b_id = ''b5'', guestName = ''Bea'', reservationId = Some ''BDC-2002-B'',
             propertyId = Some ex_beach, amount = Num 75, expectedPayment = None,
             platform = ''Booking.com'' \<rparr>"
definition ex_b6 :: Booking where
  "ex_b6 = \<lparr> b_id = ''b6'', guestName = ''Fay'', reservationId = Some ''BDC-3003'',
             propertyId = Some ex_unmatched_named, amount = Num 200, expectedPayment = None,
             platform = ''Booking.com'' \<rparr>"
definition ex_b7 :: Booking where
  "ex_b7 = \<lparr> b_id = ''b7'', guestName = ''Guy'', reservationId = Some ''BDC-2002-C'',
             propertyId = Some ex_beach_twin, amount = Num 55, expectedPayment = None,
             platform = ''Booking.com'' \<rparr>"
definition ex_b8 :: Booking where
  "ex_b8 = \<lparr> b_id = ''b8'', guestName = ''Ida'', reservationId = Some ''BDC-4004'',
             propertyId = Some ex_constructor_named, amount = Num 10, expectedPayment = None,
             platform = ''Booking.com'' \<rparr>"

definition ex_c0 :: CsvRow where "ex_c0 = \<lparr> reference = [], guest = ''Eve'', net = Num 10 \<rparr>"
definition ex_c1 :: CsvRow where
  "ex_c1 = \<lparr> reference = ''1001'', guest = ''Ann'', net = Num 150 \<rparr>"
definition ex_c2 :: CsvRow where
  "ex_c2 = \<lparr> reference = ''9999'', guest = ''Zed'', net = Num 80 \<rparr>"
definition ex_c3 :: CsvRow where
  "ex_c3 = \<lparr> reference = ''1001-A'', guest = ''Ann'', net = Num 140 \<rparr>"
definition ex_c4 :: CsvRow where
  "ex_c4 = \<lparr> reference = ''2002'', guest = ''Bob'', net = Num 90 \<rparr>"
definition ex_c5 :: CsvRow where
  "ex_c5 = \<lparr> reference = ''BDC-1001'', guest = ''Ann'', net = Num 150 \<rparr>"
definition ex_c6 :: CsvRow where
  "ex_c6 = \<lparr> reference = ''3003'', guest = ''Fay'', net = Num 200 \<rparr>"
definition ex_c7 :: CsvRow where
  "ex_c7 = \<lparr> reference = ''BDC-2002'', guest = ''Bob'', net = Num (9001 / 100) \<rparr>"
definition ex_c8 :: CsvRow where
  "ex_c8 = \<lparr> reference = ''4004'', guest = ''Ida'', net = Num 10 \<rparr>"
definition ex_c_nan :: CsvRow where
  "ex_c_nan = \<lparr> reference = ''1001'', guest = ''Ann'', net = NaN \<rparr>"

text \<open>Stored documents: a Direct booking paid by card, a Booking.com booking, a Direct
  booking paid by bank, an Agoda booking without an amount, and a cancelled booking. Then a
  request body without a reference or a status, and the same body without a guest name.\<close>

definition ex_doc :: IBooking where
  "ex_doc = \<lparr> d_guestName = Some ''Gil'', d_email = None, d_phone = None, d_idNumber = None,
              d_reservationId = Some ''R-1'', d_unitType = None,
              d_propertyId = Some (ObjectId 101), d_roomId = None,
              d_platform = Some ''Direct'', d_paymentMethod = Some ''card'',
              d_amount = Some (Num 100), d_expectedPayment = None, d_paymentDate = None,
              d_checkInDate = Some 0, d_checkOutDate = Some 86400000,
              d_status = Some ''booked'', d_id = ObjectId 1 \<rparr>"

definition ex_doc2 :: IBooking where
  "ex_doc2 = ex_doc\<lparr> d_id := ObjectId 2, d_reservationId := Some ''R-2'',
                      d_platform := Some ''Booking.com'', d_paymentMethod := Some ''online'',
                      d_amount := Some (Num 50) \<rparr>"

definition ex_doc3 :: IBooking where
  "ex_doc3 = ex_doc\<lparr> d_id := ObjectId 3, d_reservationId := Some ''R-3'',
                      d_paymentMethod := Some ''bank'', d_amount := Some (Num 30) \<rparr>"

definition ex_doc4 :: IBooking where
  "ex_doc4 = ex_doc\<lparr> d_id := ObjectId 4, d_reservationId := Some ''R-4'',
                      d_platform := Some ''Agoda'', d_paymentMethod := Some ''online'',
                      d_amount := None \<rparr>"

definition ex_cancelled :: IBooking where
  "ex_cancelled = ex_doc\<lparr> d_id := ObjectId 5, d_reservationId := Some ''R-5'',
                           d_status := Some ''cancel'' \<rparr>"

definition ex_data :: BookingData where
  "ex_data = \<lparr> d_guestName = Some ''Hal'', d_email = None, d_phone = None, d_idNumber = None,
               d_reservationId = None, d_unitType = None,
               d_propertyId = Some (ObjectId 101), d_roomId = None,
               d_platform = Some ''Direct'', d_paymentMethod = Some ''cash'',
               d_amount = Some (Num 70), d_expectedPayment = None, d_paymentDate = None,
               d_checkInDate = Some 0, d_checkOutDate = Some 86400000,
               d_status = None \<rparr>"

definition ex_data_no_guest :: BookingData where
  "ex_data_no_guest = ex_data\<lparr> d_guestName := None \<rparr>"

section \<open>Properties\<close>

lemmas ex_defs = ex_beach_def ex_city_def ex_beach_twin_def ex_unmatched_named_def
  ex_constructor_named_def
  ex_b1_def ex_b2_def ex_b3_def ex_b4_def ex_b5_def ex_b6_def ex_b7_def ex_b8_def
  ex_c0_def ex_c1_def ex_c2_def ex_c3_def ex_c4_def ex_c5_def ex_c6_def ex_c7_def ex_c8_def
  ex_c_nan_def

lemmas matcher_defs = rows_def csv_step_def db_step_def matched_def matches_def matched_row_def
  missing_in_db_row_def db_row_def new_Set_def Set_add_def propertyLabel_def comparedAmount_def
  unmatched_label_def cross_property_label_def num_sub_def exact_def

subsection \<open>Numbers\<close>

lemma num_gt_le: "a \<noteq> NaN \<Longrightarrow> b \<noteq> NaN \<Longrightarrow> \<not> num_gt a b \<longleftrightarrow> num_le a b"
  by (cases a; cases b) auto

lemma num_gt_NaN [simp]: "\<not> num_gt a NaN" "\<not> num_le a NaN"
  by (cases a; simp)+

lemma num_add_NaN [simp]: "num_add rd a NaN = NaN"
  by (cases a) simp_all

lemma or0_Some: "a \<noteq> NaN \<Longrightarrow> or0 (Some a) = a"
  by (cases a) (auto simp: or0_def)

lemma or0_NaN: "or0 (Some NaN) = Num 0"
  by (simp add: or0_def)

lemma js_sum_Nil: "js_sum rd [] = Num 0"
  by (simp add: js_sum_def)

lemma js_sum_snoc: "js_sum rd (xs @ [x]) = num_add rd (js_sum rd xs) x"
  by (simp add: js_sum_def)

lemma total_js_sum: "foldl (\<lambda>s b. num_add rd s (f b)) (Num 0) m = js_sum rd (map f m)"
  by (simp add: js_sum_def foldl_map)

lemma num_sub_Num: "num_sub rd (Num x) (Num y) = rd (x - y)"
  by (simp add: num_sub_def)

subsection \<open>The matching predicate\<close>

lemma str_includes_iff: "str_includes r s \<longleftrightarrow> (\<exists>p q. r = p @ s @ q)"
proof (induction r)
  case Nil
  then show ?case by auto
next
  case (Cons c cs)
  show ?case
  proof
    assume "str_includes (c # cs) s"
    then consider "prefix s (c # cs)" | "str_includes cs s" by auto
    then show "\<exists>p q. c # cs = p @ s @ q"
    proof cases
      case 1
      then obtain q where "c # cs = s @ q" by (auto simp: prefix_def)
      then have "c # cs = [] @ s @ q" by simp
      then show ?thesis by blast
    next
      case 2
      with Cons.IH obtain p q where "cs = p @ s @ q" by blast
      then have "c # cs = (c # p) @ s @ q" by simp
      then show ?thesis by blast
    qed
  next
    assume "\<exists>p q. c # cs = p @ s @ q"
    then obtain p q where pq: "c # cs = p @ s @ q" by blast
    show "str_includes (c # cs) s"
    proof (cases p)
      case Nil
      with pq have "prefix s (c # cs)" by (simp add: prefix_def)
      then show ?thesis by simp
    next
      case (Cons a p')
      with pq have "cs = p' @ s @ q" by simp
      with Cons.IH have "str_includes cs s" by blast
      then show ?thesis by simp
    qed
  qed
qed

text \<open>
  C4. A ledger row matches a stored booking exactly when the booking has a reservation
  reference and the reference of the ledger row occurs in it as a substring. An empty ledger
  reference matches every booking that has a reservation reference, and a booking without
  one matches nothing. The matches of a ledger row are the stored bookings selected so.
\<close>

theorem matches_iff_substring:
  "(matches csv b \<longleftrightarrow> (\<exists>r. reservationId b = Some r \<and> (\<exists>p q. r = p @ reference csv @ q)))
   \<and> (reference csv = [] \<longrightarrow> (matches csv b \<longleftrightarrow> reservationId b \<noteq> None))
   \<and> (reservationId b = None \<longrightarrow> \<not> matches csv b)
   \<and> matched dbBookings csv =
       filter (\<lambda>b. \<exists>r. reservationId b = Some r \<and> (\<exists>p q. r = p @ reference csv @ q)) dbBookings"
proof -
  have m: "matches c x \<longleftrightarrow> (\<exists>r. reservationId x = Some r \<and> (\<exists>p q. r = p @ reference c @ q))" for c x
    by (cases "reservationId x") (simp_all add: matches_def str_includes_iff)
  have "\<exists>p q. y = p @ [] @ q" for y :: string
    by (rule exI [of _ "[]"], rule exI [of _ y]) simp
  then have e: "reference csv = [] \<longrightarrow> (matches csv b \<longleftrightarrow> reservationId b \<noteq> None)"
    by (auto simp: m)
  have n: "reservationId b = None \<longrightarrow> \<not> matches csv b"
    by (simp add: m)
  have f: "matched dbBookings csv =
       filter (\<lambda>b. \<exists>r. reservationId b = Some r \<and> (\<exists>p q. r = p @ reference csv @ q)) dbBookings"
    unfolding matched_def by (rule filter_cong) (simp_all add: m)
  from m e n f show ?thesis by blast
qed

theorem matches_iff_substring_witness:
  "reference ex_c0 = [] \<and> matches ex_c0 ex_b1
   \<and> reservationId ex_b4 = None \<and> \<not> matches ex_c1 ex_b4
   \<and> matches ex_c1 ex_b1 \<and> \<not> matches ex_c2 ex_b1
   \<and> matched [ex_b1, ex_b2, ex_b4] ex_c1 = [ex_b1]"
proof -
  have 1: "reference ex_c0 = []" by (simp add: ex_c0_def)
  have 2: "reservationId ex_b1 \<noteq> None" by (simp add: ex_b1_def)
  have 3: "reservationId ex_b4 = None" by (simp add: ex_b4_def)
  have "\<exists>p q. ''BDC-1001-A'' = p @ reference ex_c1 @ q"
    by (rule exI [of _ "''BDC-''"], rule exI [of _ "''-A''"]) (simp add: ex_c1_def)
  then have 4: "\<exists>r. reservationId ex_b1 = Some r \<and> (\<exists>p q. r = p @ reference ex_c1 @ q)"
    by (simp add: ex_b1_def)
  have 5: "\<not> matches ex_c2 ex_b1" by (simp add: matches_def ex_defs)
  have 6: "matched [ex_b1, ex_b2, ex_b4] ex_c1 = [ex_b1]" by (simp add: matched_def matches_def ex_defs)
  from 1 2 matches_iff_substring [of ex_c0 ex_b1 "[]"] have a: "matches ex_c0 ex_b1" by blast
  from 3 matches_iff_substring [of ex_c1 ex_b4 "[]"] have b: "\<not> matches ex_c1 ex_b4" by blast
  from 4 matches_iff_substring [of ex_c1 ex_b1 "[]"] have c: "matches ex_c1 ex_b1" by blast
  from 1 3 a b c 5 6 show ?thesis by blast
qed


subsection \<open>The output of the matcher\<close>

lemma foldl_insert_ids: "foldl (\<lambda>u b. insert (b_id b) u) u m = u \<union> b_id ` set m"
  by (induction m arbitrary: u) auto

lemma foldl_csv_step:
  "foldl (csv_step rd db) (out, u) cs = (out @ map (csv_row rd db) cs, u \<union> usedIds db cs)"
  by (induction cs arbitrary: out u)
     (auto simp: csv_step_def csv_row_def usedIds_def foldl_insert_ids Let_def)

lemma foldl_db_step:
  "foldl (db_step u) out bs = out @ map db_row (filter (\<lambda>b. b_id b \<notin> u) bs)"
  by (induction bs arbitrary: out) (auto simp: db_step_def)

lemma rows_eq:
  "rows rd db cs = map (csv_row rd db) cs @ map db_row (filter (\<lambda>b. b_id b \<notin> usedIds db cs) db)"
  by (simp add: rows_def foldl_csv_step foldl_db_step)

lemma used_iff:
  assumes "inj_on b_id (set db)" "b \<in> set db"
  shows "b_id b \<in> usedIds db cs \<longleftrightarrow> (\<exists>c \<in> set cs. matches c b)"
  using assms by (auto simp: usedIds_def matched_def inj_on_def)

text \<open>
  C1. The output is one row per ledger row, in the order of the ledger, followed by one row
  per stored booking whose identifier is not the identifier of a matched booking; its length
  is the number of ledger rows plus the number of these bookings. When the identifiers tell
  the stored bookings apart, as the keys of the collection do, these are the stored bookings
  that no ledger row matches.
\<close>

theorem rows_one_per_ledger_row_and_unmatched:
  "rows rd dbBookings csvRows =
     map (csv_row rd dbBookings) csvRows @
     map db_row (filter (\<lambda>b. b_id b \<notin> usedIds dbBookings csvRows) dbBookings)
   \<and> length (rows rd dbBookings csvRows) =
       length csvRows +
       length (filter (\<lambda>b. b_id b \<notin> usedIds dbBookings csvRows) dbBookings)
   \<and> (inj_on b_id (set dbBookings) \<longrightarrow>
        rows rd dbBookings csvRows =
          map (csv_row rd dbBookings) csvRows @
          map db_row (filter (\<lambda>b. \<not> (\<exists>c \<in> set csvRows. matches c b)) dbBookings)
        \<and> length (rows rd dbBookings csvRows) =
          length csvRows +
          length (filter (\<lambda>b. \<not> (\<exists>c \<in> set csvRows. matches c b)) dbBookings))"
proof -
  have "filter (\<lambda>b. b_id b \<notin> usedIds dbBookings csvRows) dbBookings
        = filter (\<lambda>b. \<not> (\<exists>c \<in> set csvRows. matches c b)) dbBookings"
    if "inj_on b_id (set dbBookings)"
    by (rule filter_cong) (use that used_iff in auto)
  then show ?thesis by (simp add: rows_eq)
qed

theorem rows_one_per_ledger_row_and_unmatched_witness:
  "inj_on b_id (set [ex_b1, ex_b2]) \<and> length (rows exact [ex_b1, ex_b2] [ex_c1, ex_c2]) = 3"
proof -
  have h: "inj_on b_id (set [ex_b1, ex_b2])"
    by (simp add: ex_b1_def ex_b2_def)
  have "filter (\<lambda>b. \<not> (\<exists>c \<in> set [ex_c1, ex_c2]. matches c b)) [ex_b1, ex_b2] = [ex_b2]"
    by (simp add: matches_def ex_defs)
  moreover from rows_one_per_ledger_row_and_unmatched [of exact "[ex_b1, ex_b2]" "[ex_c1, ex_c2]"] h
  have "length (rows exact [ex_b1, ex_b2] [ex_c1, ex_c2]) =
          length [ex_c1, ex_c2] +
          length (filter (\<lambda>b. \<not> (\<exists>c \<in> set [ex_c1, ex_c2]. matches c b)) [ex_b1, ex_b2])"
    by blast
  ultimately show ?thesis using h by simp
qed

subsection \<open>Classification\<close>


lemma foldl_Set_add:
  "distinct acc \<Longrightarrow>
     distinct (foldl Set_add acc xs) \<and> set (foldl Set_add acc xs) = set acc \<union> set xs"
  by (induction xs arbitrary: acc) (auto simp: Set_add_def)

lemma set_new_Set: "set (new_Set xs) = set xs"
  using foldl_Set_add [of "[]" xs] by (simp add: new_Set_def)

lemma distinct_new_Set: "distinct (new_Set xs)"
  using foldl_Set_add [of "[]" xs] by (simp add: new_Set_def)

lemma length_new_Set: "length (new_Set xs) = card (set xs)"
  using distinct_card [OF distinct_new_Set, of xs] by (simp add: set_new_Set)

lemma rows_nth:
  assumes "i < length cs"
  shows "rows rd db cs ! i = csv_row rd db (cs ! i)"
  using assms by (simp add: rows_eq nth_append)

lemma status_csv_row:
  "status (csv_row rd db c) =
     (let m = matched db c in
      if m = [] then MISSING_IN_DB
      else if 1 < card (propertyLabel ` set m) then MULTI_PROPERTY_REFERENCE
      else if 1 < length m then DUPLICATE_DB_REFERENCE
      else if num_gt (num_abs (num_sub rd (js_sum rd (map comparedAmount m)) (net c)))
                (rd (1 / 100))
      then AMOUNT_MISMATCH
      else OK)"
  by (simp add: csv_row_def missing_in_db_row_def matched_row_def Let_def length_new_Set
        total_js_sum)

lemma card_labels_pos: "m \<noteq> [] \<Longrightarrow> 0 < card (propertyLabel ` set m)"
  by (simp add: card_gt_0_iff)

text \<open>
  C2, as amended. The status of the row of the \<open>i\<close>-th ledger row, by the list \<open>m\<close> of its
  matches: no match gives \<open>MISSING_IN_DB\<close>; matches with more than one property label (the
  name of the property, which is what the code compares) give \<open>MULTI_PROPERTY_REFERENCE\<close>,
  whatever the amounts; several matches with one property label give
  \<open>DUPLICATE_DB_REFERENCE\<close>; a single match gives \<open>AMOUNT_MISMATCH\<close> when the test
  \<^verbatim>\<open>Math.abs(dbTotal - csv.net) > 0.01\<close> succeeds and \<open>OK\<close> otherwise, where \<open>dbTotal\<close> is
  \<open>0\<close> plus the compared amount: the expected payment when present, else the collected
  amount. When the compared amount \<open>x\<close> and the ledger net \<open>y\<close> are finite doubles, with
  \<open>z\<close> the double of \<open>x - y\<close> and \<open>t\<close> the double of one hundredth, the status is \<open>OK\<close>
  exactly when \<open>\<bar>z\<bar> \<le> t\<close> and \<open>AMOUNT_MISMATCH\<close> exactly when \<open>t < \<bar>z\<bar>\<close>.
\<close>

theorem status_classification:
  assumes "i < length csvRows"
  shows "(matched dbBookings (csvRows ! i) = [] \<longrightarrow>
            status (rows rd dbBookings csvRows ! i) = MISSING_IN_DB)
       \<and> (1 < card (propertyLabel ` set (matched dbBookings (csvRows ! i))) \<longrightarrow>
            status (rows rd dbBookings csvRows ! i) = MULTI_PROPERTY_REFERENCE)
       \<and> (card (propertyLabel ` set (matched dbBookings (csvRows ! i))) = 1
            \<and> 1 < length (matched dbBookings (csvRows ! i)) \<longrightarrow>
            status (rows rd dbBookings csvRows ! i) = DUPLICATE_DB_REFERENCE)
       \<and> (\<forall>b. matched dbBookings (csvRows ! i) = [b] \<longrightarrow>
            status (rows rd dbBookings csvRows ! i) =
              (if num_gt
                    (num_abs
                       (num_sub rd
                          (num_add rd (Num 0)
                             (case expectedPayment b of None \<Rightarrow> amount b | Some e \<Rightarrow> e))
                          (net (csvRows ! i))))
                    (rd (1 / 100))
               then AMOUNT_MISMATCH else OK)
          \<and> (\<forall>x y z t.
                (case expectedPayment b of None \<Rightarrow> amount b | Some e \<Rightarrow> e) = Num x
                \<and> rd x = Num x \<and> net (csvRows ! i) = Num y
                \<and> rd (x - y) = Num z \<and> rd (1 / 100) = Num t \<longrightarrow>
                (status (rows rd dbBookings csvRows ! i) = OK \<longleftrightarrow> \<bar>z\<bar> \<le> t)
              \<and> (status (rows rd dbBookings csvRows ! i) = AMOUNT_MISMATCH \<longleftrightarrow> t < \<bar>z\<bar>)))"
proof -
  let ?c = "csvRows ! i"
  let ?m = "matched dbBookings ?c"
  let ?cmp = "\<lambda>b. case expectedPayment b of None \<Rightarrow> amount b | Some e \<Rightarrow> e"
  have r: "rows rd dbBookings csvRows ! i = csv_row rd dbBookings ?c"
    using assms by (rule rows_nth)
  have 1: "?m = [] \<longrightarrow> status (csv_row rd dbBookings ?c) = MISSING_IN_DB"
    by (simp add: status_csv_row)
  have 2: "1 < card (propertyLabel ` set ?m) \<longrightarrow>
             status (csv_row rd dbBookings ?c) = MULTI_PROPERTY_REFERENCE"
    by (auto simp: status_csv_row Let_def)
  have 3: "card (propertyLabel ` set ?m) = 1 \<and> 1 < length ?m \<longrightarrow>
             status (csv_row rd dbBookings ?c) = DUPLICATE_DB_REFERENCE"
    by (auto simp: status_csv_row Let_def)
  have 4: "status (csv_row rd dbBookings ?c) =
             (if num_gt (num_abs (num_sub rd (num_add rd (Num 0) (?cmp b)) (net ?c))) (rd (1 / 100))
              then AMOUNT_MISMATCH else OK)"
    if "?m = [b]" for b
    using that by (simp add: status_csv_row js_sum_def comparedAmount_def)
  have 5: "(status (csv_row rd dbBookings ?c) = OK \<longleftrightarrow> \<bar>z\<bar> \<le> t)
         \<and> (status (csv_row rd dbBookings ?c) = AMOUNT_MISMATCH \<longleftrightarrow> t < \<bar>z\<bar>)"
    if "?m = [b]" "?cmp b = Num x" "rd x = Num x" "net ?c = Num y" "rd (x - y) = Num z"
       "rd (1 / 100) = Num t" for b x y z t
    using that(2-) by (auto simp: 4 [OF that(1)] num_sub_Num)
  from 1 2 3 4 5 show ?thesis unfolding r by blast
qed

theorem status_classification_witness:
  "matched [ex_b1, ex_b2, ex_b3] ex_c2 = []
   \<and> status (rows exact [ex_b1, ex_b2, ex_b3] [ex_c1, ex_c2, ex_c3] ! 1) = MISSING_IN_DB
   \<and> matched [ex_b1, ex_b2, ex_b3] ex_c1 = [ex_b1, ex_b3]
   \<and> status (rows exact [ex_b1, ex_b2, ex_b3] [ex_c1, ex_c2, ex_c3] ! 0) = MULTI_PROPERTY_REFERENCE
   \<and> matched [ex_b2, ex_b5] ex_c4 = [ex_b2, ex_b5]
   \<and> status (rows exact [ex_b2, ex_b5] [ex_c4] ! 0) = DUPLICATE_DB_REFERENCE
   \<and> matched [ex_b1, ex_b2, ex_b3] ex_c3 = [ex_b1]
   \<and> status (rows exact [ex_b1, ex_b2, ex_b3] [ex_c1, ex_c2, ex_c3] ! 2) = AMOUNT_MISMATCH
   \<and> matched [ex_b1, ex_b2] ex_c1 = [ex_b1]
   \<and> status (rows exact [ex_b1, ex_b2] [ex_c1] ! 0) = OK
   \<and> matched [ex_b2] ex_c4 = [ex_b2] \<and> expectedPayment ex_b2 = None
   \<and> status (rows exact [ex_b2] [ex_c4] ! 0) = OK
   \<and> matched [ex_b2] ex_c7 = [ex_b2]
   \<and> status (rows exact [ex_b2] [ex_c7] ! 0) = OK
   \<and> matched [ex_b2] ex_c0 = [ex_b2]
   \<and> status (rows exact [ex_b2] [ex_c0] ! 0) = AMOUNT_MISMATCH"
proof -
  let ?db = "[ex_b1, ex_b2, ex_b3]" and ?cs = "[ex_c1, ex_c2, ex_c3]"
  have m0: "matched ?db (?cs ! 0) = [ex_b1, ex_b3]"
    by (simp add: matched_def matches_def ex_defs)
  have m1: "matched ?db (?cs ! 1) = []"
    by (simp add: matched_def matches_def ex_defs)
  have m2: "matched ?db (?cs ! 2) = [ex_b1]"
    by (simp add: matched_def matches_def ex_defs)
  have m3: "matched [ex_b2, ex_b5] ([ex_c4] ! 0) = [ex_b2, ex_b5]"
    by (simp add: matched_def matches_def ex_defs)
  have m4: "matched [ex_b1, ex_b2] ([ex_c1] ! 0) = [ex_b1]"
    by (simp add: matched_def matches_def ex_defs)
  have m5: "matched [ex_b2] ([ex_c4] ! 0) = [ex_b2]"
    by (simp add: matched_def matches_def ex_defs)
  have m6: "matched [ex_b2] ([ex_c7] ! 0) = [ex_b2]"
    by (simp add: matched_def matches_def ex_defs)
  have m7: "matched [ex_b2] ([ex_c0] ! 0) = [ex_b2]"
    by (simp add: matched_def matches_def ex_defs)
  have c0: "1 < card (propertyLabel ` set (matched ?db (?cs ! 0)))"
    unfolding m0 by (simp add: propertyLabel_def ex_defs)
  have c3: "card (propertyLabel ` set (matched [ex_b2, ex_b5] ([ex_c4] ! 0))) = 1
            \<and> 1 < length (matched [ex_b2, ex_b5] ([ex_c4] ! 0))"
    unfolding m3 by (simp add: propertyLabel_def ex_defs)
  have e1: "(case expectedPayment ex_b1 of None \<Rightarrow> amount ex_b1 | Some e \<Rightarrow> e) = Num 150"
    by (simp add: ex_defs)
  have e2: "(case expectedPayment ex_b2 of None \<Rightarrow> amount ex_b2 | Some e \<Rightarrow> e) = Num 90"
    and n2: "expectedPayment ex_b2 = None"
    by (simp_all add: ex_defs)
  have s1: "status (rows exact ?db ?cs ! 1) = MISSING_IN_DB"
    using status_classification [of 1 ?cs ?db exact] m1 by simp
  have s0: "status (rows exact ?db ?cs ! 0) = MULTI_PROPERTY_REFERENCE"
    using status_classification [of 0 ?cs ?db exact] c0 by simp
  have s3: "status (rows exact [ex_b2, ex_b5] [ex_c4] ! 0) = DUPLICATE_DB_REFERENCE"
    using status_classification [of 0 "[ex_c4]" "[ex_b2, ex_b5]" exact] c3 by simp
  have fin: "(status (rows exact db cs ! i) = OK \<longleftrightarrow> \<bar>x - y\<bar> \<le> 1 / 100)
           \<and> (status (rows exact db cs ! i) = AMOUNT_MISMATCH \<longleftrightarrow> 1 / 100 < \<bar>x - y\<bar>)"
    if "i < length cs" "matched db (cs ! i) = [b]"
       "(case expectedPayment b of None \<Rightarrow> amount b | Some e \<Rightarrow> e) = Num x"
       "net (cs ! i) = Num y" for db cs i b x y
  proof -
    have "exact x = Num x" "exact (x - y) = Num (x - y)" "exact (1 / 100) = Num (1 / 100)"
      by (simp_all add: exact_def)
    with status_classification [OF that(1), of db exact] that(2-) show ?thesis
      by blast
  qed
  have s2: "status (rows exact ?db ?cs ! 2) = AMOUNT_MISMATCH"
    using fin [of 2 ?cs ?db ex_b1 150 140] m2 e1 by (simp add: ex_defs)
  have s4: "status (rows exact [ex_b1, ex_b2] [ex_c1] ! 0) = OK"
    using fin [of 0 "[ex_c1]" "[ex_b1, ex_b2]" ex_b1 150 150] m4 e1 by (simp add: ex_defs)
  have s5: "status (rows exact [ex_b2] [ex_c4] ! 0) = OK"
    using fin [of 0 "[ex_c4]" "[ex_b2]" ex_b2 90 90] m5 e2 by (simp add: ex_defs)
  have s6: "status (rows exact [ex_b2] [ex_c7] ! 0) = OK"
    using fin [of 0 "[ex_c7]" "[ex_b2]" ex_b2 90 "9001 / 100"] m6 e2 by (simp add: ex_defs)
  have s7: "status (rows exact [ex_b2] [ex_c0] ! 0) = AMOUNT_MISMATCH"
    using fin [of 0 "[ex_c0]" "[ex_b2]" ex_b2 90 10] m7 e2 by (simp add: ex_defs)
  from m0 m1 m2 m3 m4 m5 m6 m7 n2 s0 s1 s2 s3 s4 s5 s6 s7 show ?thesis by simp
qed

text \<open>
  Two properties with one name are one label: a ledger row that matches a booking in each
  is a duplicate reference, not a cross-property one. A ledger net that is not a number
  fails the test of the difference: the row of its single match is \<open>OK\<close>, though the
  difference is not at most one hundredth.
\<close>

theorem status_same_name_and_not_a_number:
  "propertyId ex_b2 = Some ex_beach \<and> propertyId ex_b7 = Some ex_beach_twin
   \<and> p_id ex_beach \<noteq> p_id ex_beach_twin
   \<and> matched [ex_b2, ex_b7] ex_c4 = [ex_b2, ex_b7]
   \<and> status (rows exact [ex_b2, ex_b7] [ex_c4] ! 0) = DUPLICATE_DB_REFERENCE
   \<and> matched [ex_b1] ex_c_nan = [ex_b1] \<and> net ex_c_nan = NaN
   \<and> status (rows exact [ex_b1] [ex_c_nan] ! 0) = OK
   \<and> \<not> num_le (num_abs (num_sub exact (comparedAmount ex_b1) (net ex_c_nan))) (exact (1 / 100))"
  by (simp add: matcher_defs ex_defs Let_def)

subsection \<open>Totality\<close>


lemma status_db_row: "status (db_row b) = MISSING_IN_CSV"
  by (simp add: db_row_def)

lemma length_rows_le: "length (rows rd db cs) \<le> length cs + length db"
  by (simp add: rows_eq)

text \<open>
  C6. The matcher is a total function: two folds over finite lists, with no error value,
  because no operation of the source can raise (the optional chaining guards the two
  nullable fields, the index 0 is read only when the set has one element, the reduction has
  an initial value, and arithmetic on numbers never raises). Every row of its output carries
  one of the six statuses: the rows of the ledger rows come first and carry any status but
  \<open>MISSING_IN_CSV\<close>, the rows after them carry \<open>MISSING_IN_CSV\<close>; the output is at least
  as long as the ledger and at most as long as the ledger and the stored bookings together.
\<close>

theorem matcher_total:
  "(\<forall>r \<in> set (rows rd dbBookings csvRows).
       status r \<in> {OK, MISSING_IN_DB, MISSING_IN_CSV, AMOUNT_MISMATCH,
                   DUPLICATE_DB_REFERENCE, MULTI_PROPERTY_REFERENCE})
   \<and> (\<forall>i < length csvRows.
         status (rows rd dbBookings csvRows ! i) \<in>
           {OK, MISSING_IN_DB, AMOUNT_MISMATCH, DUPLICATE_DB_REFERENCE,
            MULTI_PROPERTY_REFERENCE})
   \<and> (\<forall>i < length (rows rd dbBookings csvRows).
         length csvRows \<le> i \<longrightarrow> status (rows rd dbBookings csvRows ! i) = MISSING_IN_CSV)
   \<and> length csvRows \<le> length (rows rd dbBookings csvRows)
   \<and> length (rows rd dbBookings csvRows) \<le> length csvRows + length dbBookings"
proof -
  have a: "status r \<in> {OK, MISSING_IN_DB, MISSING_IN_CSV, AMOUNT_MISMATCH,
                   DUPLICATE_DB_REFERENCE, MULTI_PROPERTY_REFERENCE}" for r :: ReconciliationRow
    by (cases "status r") simp_all
  have b: "status (rows rd dbBookings csvRows ! i) \<in>
                {OK, MISSING_IN_DB, AMOUNT_MISMATCH, DUPLICATE_DB_REFERENCE,
                 MULTI_PROPERTY_REFERENCE}" if "i < length csvRows" for i
    using that by (simp add: rows_nth status_csv_row Let_def)
  have c: "status (rows rd dbBookings csvRows ! i) = MISSING_IN_CSV"
    if "length csvRows \<le> i" "i < length (rows rd dbBookings csvRows)" for i
    using that by (simp add: rows_eq nth_append status_db_row)
  have d: "length csvRows \<le> length (rows rd dbBookings csvRows)"
    by (simp add: rows_eq)
  from a b c d length_rows_le [of rd dbBookings csvRows] show ?thesis by blast
qed

theorem matcher_total_witness:
  "length (rows exact [ex_b1, ex_b2] [ex_c1, ex_c2]) = 3
   \<and> status (rows exact [ex_b1, ex_b2] [ex_c1, ex_c2] ! 0) \<noteq> MISSING_IN_CSV
   \<and> status (rows exact [ex_b1, ex_b2] [ex_c1, ex_c2] ! 2) = MISSING_IN_CSV"
proof -
  let ?out = "rows exact [ex_b1, ex_b2] [ex_c1, ex_c2]"
  have l: "length ?out = 3"
    by (simp add: rows_eq usedIds_def matched_def matches_def ex_defs)
  note t = matcher_total [of exact "[ex_b1, ex_b2]" "[ex_c1, ex_c2]"]
  from t have "\<forall>i < length [ex_c1, ex_c2]. status (?out ! i) \<in>
           {OK, MISSING_IN_DB, AMOUNT_MISMATCH, DUPLICATE_DB_REFERENCE,
            MULTI_PROPERTY_REFERENCE}"
    by blast
  then have 0: "status (?out ! 0) \<noteq> MISSING_IN_CSV"
    by auto
  from t have "\<forall>i < length ?out. length [ex_c1, ex_c2] \<le> i \<longrightarrow> status (?out ! i) = MISSING_IN_CSV"
    by blast
  then have 2: "status (?out ! 2) = MISSING_IN_CSV"
    unfolding l by simp
  from l 0 2 show ?thesis by simp
qed

subsection \<open>Stored totals\<close>






subsection \<open>Groups\<close>

lemma grouped_loop_snoc:
  "grouped_loop rd m (rs @ [r]) =
     (case grouped_loop rd m rs of Inl e \<Rightarrow> Inl e | Inr m' \<Rightarrow> group_step rd m' r)"
  by (induction rs arbitrary: m) (auto split: sum.splits)

lemma group_of_Nil: "group_of rd [] = new_group"
  by (simp add: group_of_def new_group_def js_sum_Nil)

lemma add_row_group_of: "add_row rd (group_of rd rp) r = group_of rd (rp @ [r])"
  by (simp add: add_row_def group_of_def Let_def js_sum_snoc)

lemma group_step_groups_of:
  assumes "\<forall>x \<in> set rs. property x \<notin> set Object_prototype_members"
  shows "group_step rd (groups_of rd rs) r =
           (if property r \<in> set Object_prototype_members then Inl TypeError
            else Inr (groups_of rd (rs @ [r])))"
proof (cases "property r \<in> set Object_prototype_members")
  case True
  with assms have "filter (\<lambda>x. property x = property r) rs = []"
    by (auto simp: filter_empty_conv)
  with True show ?thesis
    by (simp add: group_step_def groups_of_def)
next
  case False
  have "(if groups_of rd rs (property r) = None
         then (groups_of rd rs)(property r \<mapsto> new_group) else groups_of rd rs) (property r)
        = Some (group_of rd (filter (\<lambda>x. property x = property r) rs))"
    by (simp add: groups_of_def group_of_Nil)
  with False have "group_step rd (groups_of rd rs) r =
      Inr ((groups_of rd rs)
            (property r \<mapsto> group_of rd (filter (\<lambda>x. property x = property r) rs @ [r])))"
    by (simp add: group_step_def Let_def add_row_group_of)
  moreover have "(groups_of rd rs)
            (property r \<mapsto> group_of rd (filter (\<lambda>x. property x = property r) rs @ [r]))
        = groups_of rd (rs @ [r])"
    by (rule ext) (simp add: groups_of_def)
  ultimately show ?thesis using False by simp
qed

lemma grouped_eq:
  "grouped rd rs =
     (if \<exists>r \<in> set rs. property r \<in> set Object_prototype_members then Inl TypeError
      else Inr (groups_of rd rs))"
proof (induction rs rule: rev_induct)
  case Nil
  then show ?case by (simp add: grouped_def groups_of_def)
next
  case (snoc r rs)
  show ?case
  proof (cases "\<exists>x \<in> set rs. property x \<in> set Object_prototype_members")
    case True
    with snoc show ?thesis
      by (auto simp: grouped_def grouped_loop_snoc)
  next
    case False
    with snoc have "grouped_loop rd Map.empty rs = Inr (groups_of rd rs)"
      by (simp add: grouped_def)
    moreover from False have "\<forall>x \<in> set rs. property x \<notin> set Object_prototype_members"
      by blast
    note group_step_groups_of [OF this, of rd r]
    ultimately show ?thesis using False
      by (simp add: grouped_def grouped_loop_snoc)
  qed
qed

lemma grouped_Inr:
  assumes "grouped rd rs = Inr mp"
  shows "mp = groups_of rd rs" "\<forall>r \<in> set rs. property r \<notin> set Object_prototype_members"
  using assms by (auto simp: grouped_eq split: if_splits)

lemma groups_of_Some:
  "groups_of rd rs p = Some g \<Longrightarrow> g = group_of rd (filter (\<lambda>r. property r = p) rs)"
  by (simp add: groups_of_def split: if_splits)

lemma or0_alt: "or0 v = (case v of None \<Rightarrow> Num 0 | Some a \<Rightarrow> if a = NaN then Num 0 else a)"
  by (cases v; cases "the v") (auto simp: or0_def)

lemma map_not_NaN: "NaN \<notin> set xs \<Longrightarrow> map (\<lambda>a. if a = NaN then Num 0 else a) xs = xs"
  by (induction xs) auto

lemma csvNet_OK_row:
  assumes "r \<in> set (rows rd db cs)" "status r = OK"
  shows "\<exists>x. csvNet r = Some x"
proof -
  from assms obtain c where "r = csv_row rd db c"
    by (auto simp: rows_eq status_db_row)
  then show ?thesis
    by (simp add: csv_row_def missing_in_db_row_def matched_row_def Let_def)
qed

text \<open>
  C3, as amended. For the output of the matcher, an aggregation that returns and every group
  of it: the rows of the group are the rows of the output with the label of the group, each
  of its \<open>OK\<close> rows has a \<open>csvNet\<close>, and \<open>safeTotal\<close> is the sum, from \<open>0\<close> and in the order
  of the output, of the \<open>csvNet\<close> of these rows, one that is not a number counting as \<open>0\<close>;
  the rows of any other status add nothing to it. When no \<open>OK\<close> row of the group has a
  \<open>csvNet\<close> that is not a number, \<open>safeTotal\<close> is the sum of their \<open>csvNet\<close>.
\<close>

theorem safeTotal_sum_of_OK_rows:
  assumes "grouped rd (rows rd dbBookings csvRows) = Inr mp" and "mp p = Some g"
  shows "g_rows g = filter (\<lambda>r. property r = p) (rows rd dbBookings csvRows)
       \<and> (\<exists>nets. map csvNet (filter (\<lambda>r. status r = OK) (g_rows g)) = map Some nets
                 \<and> safeTotal g = js_sum rd (map (\<lambda>a. if a = NaN then Num 0 else a) nets)
                 \<and> (NaN \<notin> set nets \<longrightarrow> safeTotal g = js_sum rd nets))"
proof -
  let ?rp = "filter (\<lambda>r. property r = p) (rows rd dbBookings csvRows)"
  from grouped_Inr(1) [OF assms(1)] assms(2) have g: "g = group_of rd ?rp"
    by (simp add: groups_of_Some)
  let ?ok = "filter (\<lambda>r. status r = OK) ?rp"
  let ?nets = "map (\<lambda>r. the (csvNet r)) ?ok"
  have "\<forall>r \<in> set ?ok. \<exists>x. csvNet r = Some x"
    using csvNet_OK_row by auto
  then have s: "\<forall>r \<in> set ?ok. csvNet r = Some (the (csvNet r))"
    by auto
  have 1: "map csvNet ?ok = map Some ?nets"
    unfolding map_map comp_def
  proof (rule map_cong [OF refl])
    fix r assume "r \<in> set ?ok"
    with s show "csvNet r = Some (the (csvNet r))" by blast
  qed
  have e: "map (\<lambda>r. or0 (csvNet r)) ?ok = map (\<lambda>a. if a = NaN then Num 0 else a) ?nets"
    unfolding map_map comp_def
  proof (rule map_cong [OF refl])
    fix r assume "r \<in> set ?ok"
    with s have "csvNet r = Some (the (csvNet r))" by blast
    then show "or0 (csvNet r) = (if the (csvNet r) = NaN then Num 0 else the (csvNet r))"
        using or0_alt [of "csvNet r"] by (cases "csvNet r") simp_all
  qed
  have "safeTotal g = js_sum rd (map (\<lambda>r. or0 (csvNet r)) ?ok)"
    unfolding g group_of_def by simp
  then have 2: "safeTotal g = js_sum rd (map (\<lambda>a. if a = NaN then Num 0 else a) ?nets)"
    unfolding e .
  have 3: "NaN \<notin> set ?nets \<longrightarrow> safeTotal g = js_sum rd ?nets"
  proof
    assume "NaN \<notin> set ?nets"
    then have "map (\<lambda>a. if a = NaN then Num 0 else a) ?nets = ?nets"
      by (rule map_not_NaN)
    with 2 show "safeTotal g = js_sum rd ?nets"
      by (rule back_subst [where P = "\<lambda>l. safeTotal g = js_sum rd l"])
  qed
  have 4: "g_rows g = ?rp"
    by (simp add: g group_of_def)
  from 1 2 3 have "\<exists>nets. map csvNet (filter (\<lambda>r. status r = OK) ?rp) = map Some nets
                 \<and> safeTotal g = js_sum rd (map (\<lambda>a. if a = NaN then Num 0 else a) nets)
                 \<and> (NaN \<notin> set nets \<longrightarrow> safeTotal g = js_sum rd nets)"
    by blast
  with 4 show ?thesis by simp
qed

lemma js_sum_exact_simps:
  "js_sum exact [] = Num 0"
  "js_sum exact [a] = num_add exact (Num 0) a"
  "js_sum exact [a, b] = num_add exact (num_add exact (Num 0) a) b"
  by (simp_all add: js_sum_def)

theorem safeTotal_sum_of_OK_rows_witness:
  "\<exists>mp g. grouped exact (rows exact [ex_b1, ex_b2] [ex_c1, ex_c2, ex_c3]) = Inr mp
       \<and> mp ''Beach House'' = Some g
       \<and> map status (g_rows g) = [OK, AMOUNT_MISMATCH, MISSING_IN_CSV]
       \<and> map csvNet (filter (\<lambda>r. status r = OK) (g_rows g)) = [Some (Num 150)]
       \<and> safeTotal g = Num 150"
proof -
  let ?out = "rows exact [ex_b1, ex_b2] [ex_c1, ex_c2, ex_c3]"
  have out: "?out = [matched_row exact ex_c1 [ex_b1], missing_in_db_row ex_c2,
                     matched_row exact ex_c3 [ex_b1], db_row ex_b2]"
    by (simp add: rows_def csv_step_def db_step_def matched_def matches_def ex_defs)
  have p: "map property ?out = [''Beach House'', ''Unmatched CSV'', ''Beach House'', ''Beach House'']"
    unfolding out by (simp add: matcher_defs ex_defs Let_def)
  have st: "map status ?out = [OK, MISSING_IN_DB, AMOUNT_MISMATCH, MISSING_IN_CSV]"
    unfolding out by (simp add: matcher_defs ex_defs Let_def)
  have nets: "map csvNet ?out = [Some (Num 150), Some (Num 80), Some (Num 140), None]"
    unfolding out by (simp add: matcher_defs ex_defs Let_def)
  have f: "filter (\<lambda>r. property r = ''Beach House'') ?out
             = [matched_row exact ex_c1 [ex_b1], matched_row exact ex_c3 [ex_b1], db_row ex_b2]"
    using p unfolding out by simp
  have "\<not> (\<exists>r \<in> set ?out. property r \<in> set Object_prototype_members)"
    using p unfolding out by (simp add: Object_prototype_members_def)
  then have mp: "grouped exact ?out = Inr (groups_of exact ?out)"
    by (simp only: grouped_eq if_False)
  from f obtain g where g: "groups_of exact ?out ''Beach House'' = Some g"
    by (simp add: groups_of_def)
  note t = safeTotal_sum_of_OK_rows [OF mp g]
  from t f have gr: "g_rows g = [matched_row exact ex_c1 [ex_b1], matched_row exact ex_c3 [ex_b1], db_row ex_b2]"
    by (simp only:)
  from t obtain ns where ns: "map csvNet (filter (\<lambda>r. status r = OK) (g_rows g)) = map Some ns"
    "NaN \<notin> set ns \<longrightarrow> safeTotal g = js_sum exact ns" by blast
  have s3: "map status (g_rows g) = [OK, AMOUNT_MISMATCH, MISSING_IN_CSV]"
    using st unfolding gr out by simp
  then have ok: "filter (\<lambda>r. status r = OK) (g_rows g) = [matched_row exact ex_c1 [ex_b1]]"
    unfolding gr by simp
  with ns(1) nets have "map Some ns = [Some (Num 150)]"
    unfolding out by simp
  then have n: "ns = [Num 150]" by auto
  with ns(2) have "safeTotal g = Num 150"
    by (simp add: js_sum_exact_simps exact_def)
  moreover from ns(1) n have "map csvNet (filter (\<lambda>r. status r = OK) (g_rows g)) = [Some (Num 150)]"
    by simp
  ultimately have "grouped exact ?out = Inr (groups_of exact ?out)
       \<and> groups_of exact ?out ''Beach House'' = Some g
       \<and> map status (g_rows g) = [OK, AMOUNT_MISMATCH, MISSING_IN_CSV]
       \<and> map csvNet (filter (\<lambda>r. status r = OK) (g_rows g)) = [Some (Num 150)]
       \<and> safeTotal g = Num 150"
    using mp g s3 by simp
  then show ?thesis by (intro exI)
qed

text \<open>
  Against C3 as worded: of the two ledger rows, both of reference 1001, the first has a net
  amount that is not a number. Both rows are \<open>OK\<close> and in the group of Beach House; the sum of
  their \<open>csvNet\<close> is not a number, and \<open>safeTotal\<close> is 150.
\<close>

theorem safeTotal_skips_not_a_number:
  "map status (rows exact [ex_b1] [ex_c_nan, ex_c1]) = [OK, OK]
   \<and> map property (rows exact [ex_b1] [ex_c_nan, ex_c1]) = [''Beach House'', ''Beach House'']
   \<and> map csvNet (rows exact [ex_b1] [ex_c_nan, ex_c1]) = [Some NaN, Some (Num 150)]
   \<and> js_sum exact [NaN, Num 150] = NaN
   \<and> map_option safeTotal (group_at exact (rows exact [ex_b1] [ex_c_nan, ex_c1]) ''Beach House'')
        = Some (Num 150)"
proof -
  let ?out = "rows exact [ex_b1] [ex_c_nan, ex_c1]"
  have out: "?out = [matched_row exact ex_c_nan [ex_b1], matched_row exact ex_c1 [ex_b1]]"
    by (simp add: rows_def csv_step_def db_step_def matched_def matches_def ex_defs)
  have p: "map property ?out = [''Beach House'', ''Beach House'']"
    unfolding out by (simp add: matcher_defs ex_defs Let_def)
  have st: "map status ?out = [OK, OK]"
    unfolding out by (simp add: matcher_defs ex_defs Let_def)
  have nets: "map csvNet ?out = [Some NaN, Some (Num 150)]"
    unfolding out by (simp add: matcher_defs ex_defs Let_def)
  have s: "js_sum exact [NaN, Num 150] = NaN"
    by (simp add: js_sum_exact_simps)
  have "\<not> (\<exists>r \<in> set ?out. property r \<in> set Object_prototype_members)"
    using p unfolding out by (simp add: Object_prototype_members_def)
  then have mp: "grouped exact ?out = Inr (groups_of exact ?out)"
    by (simp only: grouped_eq if_False)
  have f: "filter (\<lambda>r. property r = ''Beach House'') ?out = ?out"
    using p unfolding out by simp
  have "groups_of exact ?out ''Beach House'' = Some (group_of exact ?out)"
    unfolding groups_of_def f unfolding out by simp
  then have "map_option safeTotal (group_at exact ?out ''Beach House'')
               = Some (safeTotal (group_of exact ?out))"
    by (simp add: group_at_def mp)
  also have "safeTotal (group_of exact ?out) = js_sum exact [or0 (Some NaN), or0 (Some (Num 150))]"
    using st nets unfolding group_of_def out by simp
  also have "\<dots> = Num 150"
    by (simp add: js_sum_exact_simps or0_def exact_def)
  finally show ?thesis using p st nets s by simp
qed

lemma new_Set_single:
  assumes "length (new_Set xs) = 1" "x \<in> set xs"
  shows "new_Set xs ! 0 = x"
proof -
  from assms(1) obtain y where y: "new_Set xs = [y]"
    by (cases "new_Set xs") auto
  then have "set xs = {y}" using set_new_Set [of xs] by simp
  with assms(2) y show ?thesis by simp
qed

lemma labels_differ: "unmatched_label \<noteq> cross_property_label"
  by (simp add: unmatched_label_def cross_property_label_def)

lemma labels_not_prototype_members:
  "unmatched_label \<notin> set Object_prototype_members"
  "cross_property_label \<notin> set Object_prototype_members"
  by (simp_all add: unmatched_label_def cross_property_label_def Object_prototype_members_def)

lemma csv_row_missing:
  "matched db c = [] \<Longrightarrow> csv_row rd db c = missing_in_db_row c"
  by (simp add: csv_row_def)

lemma csv_row_matched:
  "matched db c \<noteq> [] \<Longrightarrow> csv_row rd db c = matched_row rd c (matched db c)"
  by (simp add: csv_row_def)

lemma matched_row_multi:
  "status (matched_row rd c m) = MULTI_PROPERTY_REFERENCE \<longleftrightarrow> 1 < card (propertyLabel ` set m)"
  by (simp add: matched_row_def Let_def length_new_Set)

lemma matched_row_not_missing_in_db: "status (matched_row rd c m) \<noteq> MISSING_IN_DB"
  by (simp add: matched_row_def Let_def)

lemma matched_row_property_cross:
  "1 < card (propertyLabel ` set m) \<Longrightarrow> property (matched_row rd c m) = cross_property_label"
  by (simp add: matched_row_def Let_def length_new_Set)

lemma matched_row_property_single:
  assumes "m \<noteq> []" "\<not> 1 < card (propertyLabel ` set m)" "b \<in> set m"
  shows "property (matched_row rd c m) = propertyLabel b"
proof -
  from assms(1) have "0 < card (propertyLabel ` set m)" by (rule card_labels_pos)
  with assms(2) have 1: "length (new_Set (map propertyLabel m)) = 1"
    by (simp add: length_new_Set)
  from assms(3) have "propertyLabel b \<in> set (map propertyLabel m)" by simp
  from new_Set_single [OF 1 this] 1 show ?thesis
    by (simp add: matched_row_def Let_def)
qed

lemma rows_cases:
  assumes "r \<in> set (rows rd db cs)"
  obtains (missing) c where "c \<in> set cs" "matched db c = []" "r = missing_in_db_row c"
  | (matched) c where "c \<in> set cs" "matched db c \<noteq> []" "r = matched_row rd c (matched db c)"
  | (unused) b where "b \<in> set db" "r = db_row b"
proof -
  from assms consider c where "c \<in> set cs" "r = csv_row rd db c" | b where "b \<in> set db" "r = db_row b"
    by (auto simp: rows_eq)
  then show thesis
  proof cases
    case 1
    then show ?thesis
      by (cases "matched db c = []") (auto simp: csv_row_missing csv_row_matched intro: missing matched)
  next
    case 2
    then show ?thesis by (rule unused)
  qed
qed

lemma matched_subset: "set (matched db c) \<subseteq> set db"
  by (auto simp: matched_def)

text \<open>
  C5, as amended. Every \<open>MISSING_IN_DB\<close> row carries the label \<^verbatim>\<open>Unmatched CSV\<close> and every
  \<open>MULTI_PROPERTY_REFERENCE\<close> row the cross-property label; every other row carries the label
  that all its stored records share: the name of the property of the record, or
  \<^verbatim>\<open>Unknown Property\<close> without a property or a name. The aggregation raises a \<open>TypeError\<close> when
  the label of a row is the name of a member of \<open>Object.prototype\<close>, and returns otherwise.
  When it returns, each row is in the group of its label, the group of a label holds exactly
  the rows with that label, its totals being sums over them, and a group whose label is
  neither of the two holds no row of the two kinds. The two labels differ and neither is
  such a member name. When no stored booking has one of the two labels as its property
  label, the rows under \<^verbatim>\<open>Unmatched CSV\<close> are exactly the \<open>MISSING_IN_DB\<close> rows and the rows
  under the cross-property label exactly the \<open>MULTI_PROPERTY_REFERENCE\<close> rows.
\<close>

theorem property_label_assignment:
  "(\<forall>r \<in> set (rows rd dbBookings csvRows).
       (status r = MISSING_IN_DB \<longrightarrow> property r = ''Unmatched CSV'')
     \<and> (status r = MULTI_PROPERTY_REFERENCE \<longrightarrow> property r = cross_property_label)
     \<and> (status r \<noteq> MISSING_IN_DB \<and> status r \<noteq> MULTI_PROPERTY_REFERENCE \<longrightarrow>
          (\<exists>m. dbRecords r = Some m \<and> m \<noteq> []
             \<and> (\<forall>b \<in> set m.
                   property r = (case propertyId b of
                                   None \<Rightarrow> ''Unknown Property''
                                 | Some p \<Rightarrow> if name p = [] then ''Unknown Property'' else name p)))))
   \<and> ((\<exists>r \<in> set (rows rd dbBookings csvRows). property r \<in> set Object_prototype_members) \<longrightarrow>
         grouped rd (rows rd dbBookings csvRows) = Inl TypeError)
   \<and> ((\<forall>r \<in> set (rows rd dbBookings csvRows). property r \<notin> set Object_prototype_members) \<longrightarrow>
         (\<exists>mp. grouped rd (rows rd dbBookings csvRows) = Inr mp))
   \<and> (\<forall>mp. grouped rd (rows rd dbBookings csvRows) = Inr mp \<longrightarrow>
         (\<forall>r \<in> set (rows rd dbBookings csvRows).
            \<exists>g. mp (property r) = Some g \<and> r \<in> set (g_rows g))
       \<and> (\<forall>p g. mp p = Some g \<longrightarrow>
            g = group_of rd (filter (\<lambda>r. property r = p) (rows rd dbBookings csvRows)))
       \<and> (\<forall>p g. mp p = Some g \<and> p \<noteq> unmatched_label \<and> p \<noteq> cross_property_label \<longrightarrow>
            (\<forall>r \<in> set (g_rows g).
               status r \<noteq> MISSING_IN_DB \<and> status r \<noteq> MULTI_PROPERTY_REFERENCE)))
   \<and> unmatched_label \<noteq> cross_property_label
   \<and> unmatched_label \<notin> set Object_prototype_members
   \<and> cross_property_label \<notin> set Object_prototype_members
   \<and> ((\<forall>b \<in> set dbBookings.
          propertyLabel b \<noteq> unmatched_label \<and> propertyLabel b \<noteq> cross_property_label) \<longrightarrow>
       (\<forall>r \<in> set (rows rd dbBookings csvRows).
          (property r = unmatched_label \<longleftrightarrow> status r = MISSING_IN_DB)
        \<and> (property r = cross_property_label \<longleftrightarrow> status r = MULTI_PROPERTY_REFERENCE)))"
proof -
  let ?out = "rows rd dbBookings csvRows"
  let ?label = "\<lambda>b. case propertyId b of
                       None \<Rightarrow> ''Unknown Property''
                     | Some p \<Rightarrow> if name p = [] then ''Unknown Property'' else name p"
  have a: "status r = MISSING_IN_DB \<longrightarrow> property r = ''Unmatched CSV''" if "r \<in> set ?out" for r
    using that
    by (cases r rule: rows_cases [where db = dbBookings and cs = csvRows and rd = rd])
       (auto simp: missing_in_db_row_def matched_row_not_missing_in_db db_row_def unmatched_label_def)
  have b: "status r = MULTI_PROPERTY_REFERENCE \<longrightarrow> property r = cross_property_label"
    if "r \<in> set ?out" for r
    using that
    by (cases r rule: rows_cases [where db = dbBookings and cs = csvRows and rd = rd])
       (auto simp: missing_in_db_row_def matched_row_multi matched_row_property_cross db_row_def)
  have c: "status r \<noteq> MISSING_IN_DB \<and> status r \<noteq> MULTI_PROPERTY_REFERENCE \<longrightarrow>
          (\<exists>m. dbRecords r = Some m \<and> m \<noteq> [] \<and> (\<forall>b \<in> set m. property r = ?label b))"
    if "r \<in> set ?out" for r
    using that
  proof (cases r rule: rows_cases [where db = dbBookings and cs = csvRows and rd = rd])
    case (missing c)
    then show ?thesis by (simp add: missing_in_db_row_def)
  next
    case (matched c)
    have "dbRecords r = Some (matched dbBookings c)"
      by (simp add: matched matched_row_def Let_def)
    moreover have "\<forall>b \<in> set (matched dbBookings c). property r = ?label b"
      if "status r \<noteq> MULTI_PROPERTY_REFERENCE"
      using that matched matched_row_property_single [of "matched dbBookings c" _ rd c]
      by (simp add: matched_row_multi propertyLabel_def)
    ultimately show ?thesis using matched(2) by blast
  next
    case (unused b)
    then show ?thesis by (simp add: db_row_def propertyLabel_def)
  qed
  have abc: "\<forall>r \<in> set ?out.
       (status r = MISSING_IN_DB \<longrightarrow> property r = ''Unmatched CSV'')
     \<and> (status r = MULTI_PROPERTY_REFERENCE \<longrightarrow> property r = cross_property_label)
     \<and> (status r \<noteq> MISSING_IN_DB \<and> status r \<noteq> MULTI_PROPERTY_REFERENCE \<longrightarrow>
          (\<exists>m. dbRecords r = Some m \<and> m \<noteq> [] \<and> (\<forall>b \<in> set m. property r = ?label b)))"
    using a b c by blast
  have t1: "(\<exists>r \<in> set ?out. property r \<in> set Object_prototype_members) \<longrightarrow>
         grouped rd ?out = Inl TypeError"
    by (simp add: grouped_eq)
  have t2: "(\<forall>r \<in> set ?out. property r \<notin> set Object_prototype_members) \<longrightarrow>
         (\<exists>mp. grouped rd ?out = Inr mp)"
    by (simp add: grouped_eq)
  have d: "\<exists>g. mp (property r) = Some g \<and> r \<in> set (g_rows g)"
    if "grouped rd ?out = Inr mp" "r \<in> set ?out" for r mp
  proof -
    from that(2) have "filter (\<lambda>x. property x = property r) ?out \<noteq> []"
      by (auto simp: filter_empty_conv)
    with that(2) grouped_Inr(1) [OF that(1)] show ?thesis
      by (simp add: groups_of_def group_of_def)
  qed
  have e: "g = group_of rd (filter (\<lambda>r. property r = p) ?out)"
    if "grouped rd ?out = Inr mp" "mp p = Some g" for mp p g
    using that grouped_Inr(1) [OF that(1)] by (simp add: groups_of_Some)
  have f: "\<forall>r \<in> set (g_rows g). status r \<noteq> MISSING_IN_DB \<and> status r \<noteq> MULTI_PROPERTY_REFERENCE"
    if "grouped rd ?out = Inr mp" "mp p = Some g" "p \<noteq> unmatched_label" "p \<noteq> cross_property_label"
    for mp p g
  proof
    fix r assume "r \<in> set (g_rows g)"
    with e [OF that(1,2)] have "r \<in> set ?out" "property r = p" by (simp_all add: group_of_def)
    with a b that(3,4) show "status r \<noteq> MISSING_IN_DB \<and> status r \<noteq> MULTI_PROPERTY_REFERENCE"
      unfolding unmatched_label_def by blast
  qed
  have def: "\<forall>mp. grouped rd ?out = Inr mp \<longrightarrow>
         (\<forall>r \<in> set ?out. \<exists>g. mp (property r) = Some g \<and> r \<in> set (g_rows g))
       \<and> (\<forall>p g. mp p = Some g \<longrightarrow> g = group_of rd (filter (\<lambda>r. property r = p) ?out))
       \<and> (\<forall>p g. mp p = Some g \<and> p \<noteq> unmatched_label \<and> p \<noteq> cross_property_label \<longrightarrow>
            (\<forall>r \<in> set (g_rows g).
               status r \<noteq> MISSING_IN_DB \<and> status r \<noteq> MULTI_PROPERTY_REFERENCE))"
  proof (intro allI impI conjI)
    fix mp assume g: "grouped rd ?out = Inr mp"
    show "\<forall>r \<in> set ?out. \<exists>g. mp (property r) = Some g \<and> r \<in> set (g_rows g)"
      using d [OF g] by blast
  next
    fix mp p g assume "grouped rd ?out = Inr mp" "mp p = Some g"
    then show "g = group_of rd (filter (\<lambda>r. property r = p) ?out)" by (rule e)
  next
    fix mp p g
    assume "grouped rd ?out = Inr mp"
      and "mp p = Some g \<and> p \<noteq> unmatched_label \<and> p \<noteq> cross_property_label"
    then show "\<forall>r \<in> set (g_rows g).
               status r \<noteq> MISSING_IN_DB \<and> status r \<noteq> MULTI_PROPERTY_REFERENCE"
      using f by blast
  qed
  have h: "(property r = unmatched_label \<longleftrightarrow> status r = MISSING_IN_DB)
        \<and> (property r = cross_property_label \<longleftrightarrow> status r = MULTI_PROPERTY_REFERENCE)"
    if real: "\<forall>b \<in> set dbBookings.
          propertyLabel b \<noteq> unmatched_label \<and> propertyLabel b \<noteq> cross_property_label"
      and "r \<in> set ?out" for r
    using that(2)
  proof (cases r rule: rows_cases [where db = dbBookings and cs = csvRows and rd = rd])
    case (missing c)
    then show ?thesis by (simp add: missing_in_db_row_def labels_differ)
  next
    case (matched c)
    let ?m = "matched dbBookings c"
    show ?thesis
    proof (cases "1 < card (propertyLabel ` set ?m)")
      case True
      with matched show ?thesis
        using labels_differ by (simp add: matched_row_multi matched_row_property_cross matched_row_not_missing_in_db)
    next
      case False
      from matched(2) obtain b where b: "b \<in> set ?m" by (cases ?m) auto
      with matched_subset have "b \<in> set dbBookings" by blast
      with real have "propertyLabel b \<noteq> unmatched_label" "propertyLabel b \<noteq> cross_property_label"
        by simp_all
      with matched_row_property_single [OF matched(2) False b, of rd c] matched(3) False
      show ?thesis by (simp add: matched_row_multi matched_row_not_missing_in_db)
    qed
  next
    case (unused b)
    with real show ?thesis by (simp add: db_row_def)
  qed
  have h': "(\<forall>b \<in> set dbBookings.
          propertyLabel b \<noteq> unmatched_label \<and> propertyLabel b \<noteq> cross_property_label) \<longrightarrow>
       (\<forall>r \<in> set ?out.
          (property r = unmatched_label \<longleftrightarrow> status r = MISSING_IN_DB)
        \<and> (property r = cross_property_label \<longleftrightarrow> status r = MULTI_PROPERTY_REFERENCE))"
    using h by blast
  from abc t1 t2 def labels_differ labels_not_prototype_members h' show ?thesis
    by (intro conjI)
qed

theorem property_label_assignment_witness:
  "unmatched_label \<notin> set (map propertyLabel [ex_b1, ex_b2, ex_b3])
   \<and> cross_property_label \<notin> set (map propertyLabel [ex_b1, ex_b2, ex_b3])
   \<and> map status (rows exact [ex_b1, ex_b2, ex_b3] [ex_c1, ex_c2, ex_c3])
        = [MULTI_PROPERTY_REFERENCE, MISSING_IN_DB, AMOUNT_MISMATCH, MISSING_IN_CSV]
   \<and> property (rows exact [ex_b1, ex_b2, ex_b3] [ex_c1, ex_c2, ex_c3] ! 0) = cross_property_label
   \<and> property (rows exact [ex_b1, ex_b2, ex_b3] [ex_c1, ex_c2, ex_c3] ! 1) = ''Unmatched CSV''
   \<and> property (rows exact [ex_b1, ex_b2, ex_b3] [ex_c1, ex_c2, ex_c3] ! 2) = ''Beach House''
   \<and> property (rows exact [ex_b1, ex_b2, ex_b3] [ex_c1, ex_c2, ex_c3] ! 3) = ''Beach House''
   \<and> property (rows exact [ex_b1, ex_b2, ex_b3] [ex_c1, ex_c2, ex_c3] ! 2) \<noteq> unmatched_label
   \<and> property (rows exact [ex_b1, ex_b2, ex_b3] [ex_c1, ex_c2, ex_c3] ! 3) \<noteq> cross_property_label
   \<and> (\<exists>mp g. grouped exact (rows exact [ex_b1, ex_b2, ex_b3] [ex_c1, ex_c2, ex_c3]) = Inr mp
          \<and> mp ''Beach House'' = Some g
          \<and> g_rows g = [rows exact [ex_b1, ex_b2, ex_b3] [ex_c1, ex_c2, ex_c3] ! 2,
                        rows exact [ex_b1, ex_b2, ex_b3] [ex_c1, ex_c2, ex_c3] ! 3])"
proof -
  let ?db = "[ex_b1, ex_b2, ex_b3]" and ?cs = "[ex_c1, ex_c2, ex_c3]"
  let ?out = "rows exact ?db ?cs"
  let ?label = "\<lambda>b. case propertyId b of
                       None \<Rightarrow> ''Unknown Property''
                     | Some p \<Rightarrow> if name p = [] then ''Unknown Property'' else name p"
  have real: "\<forall>b \<in> set ?db.
      propertyLabel b \<noteq> unmatched_label \<and> propertyLabel b \<noteq> cross_property_label"
    by (simp add: propertyLabel_def unmatched_label_def cross_property_label_def ex_defs)
  have out: "?out = [matched_row exact ex_c1 [ex_b1, ex_b3], missing_in_db_row ex_c2,
                     matched_row exact ex_c3 [ex_b1], db_row ex_b2]"
    by (simp add: rows_def csv_step_def db_step_def matched_def matches_def ex_defs)
  have st: "map status ?out
        = [MULTI_PROPERTY_REFERENCE, MISSING_IN_DB, AMOUNT_MISMATCH, MISSING_IN_CSV]"
    unfolding out by (simp add: matcher_defs ex_defs Let_def)
  have recs: "dbRecords (?out ! 2) = Some [ex_b1]" "dbRecords (?out ! 3) = Some [ex_b2]"
    unfolding out by (simp_all add: matched_row_def db_row_def Let_def)
  have lab: "?label ex_b1 = ''Beach House''" "?label ex_b2 = ''Beach House''"
    by (simp_all add: ex_defs)
  have len: "length ?out = 4" unfolding out by simp
  have mem: "?out ! 0 \<in> set ?out" "?out ! 1 \<in> set ?out" "?out ! 2 \<in> set ?out" "?out ! 3 \<in> set ?out"
    using len by (simp_all only: nth_mem)
  have set_out: "set ?out = {?out ! 0, ?out ! 1, ?out ! 2, ?out ! 3}"
    unfolding out by auto
  have s: "status (?out ! 0) = MULTI_PROPERTY_REFERENCE" "status (?out ! 1) = MISSING_IN_DB"
    "status (?out ! 2) = AMOUNT_MISMATCH" "status (?out ! 3) = MISSING_IN_CSV"
    using st unfolding out by simp_all
  note t = property_label_assignment [of exact ?db ?cs]
  note A = t [THEN conjunct1]
  note T2 = t [THEN conjunct2, THEN conjunct2, THEN conjunct1]
  note D = t [THEN conjunct2, THEN conjunct2, THEN conjunct2, THEN conjunct1]
  note H = t [THEN conjunct2, THEN conjunct2, THEN conjunct2, THEN conjunct2, THEN conjunct2,
              THEN conjunct2, THEN conjunct2]
  note 2 = H [THEN mp, OF real]
  note a0 = A [THEN bspec, OF mem(1)] and a1 = A [THEN bspec, OF mem(2)]
    and a2 = A [THEN bspec, OF mem(3)] and a3 = A [THEN bspec, OF mem(4)]
  have p0: "property (?out ! 0) = cross_property_label"
    by (rule a0 [THEN conjunct2, THEN conjunct1, THEN mp, OF s(1)])
  have p1: "property (?out ! 1) = ''Unmatched CSV''"
    by (rule a1 [THEN conjunct1, THEN mp, OF s(2)])
  have "status (?out ! 2) \<noteq> MISSING_IN_DB \<and> status (?out ! 2) \<noteq> MULTI_PROPERTY_REFERENCE"
    unfolding s by simp
  from a2 [THEN conjunct2, THEN conjunct2, THEN mp, OF this]
  obtain m2 where m2: "dbRecords (?out ! 2) = Some m2"
    "\<forall>b \<in> set m2. property (?out ! 2) = ?label b" by blast
  from m2(1) recs(1) have "m2 = [ex_b1]" by simp
  with m2(2) have "property (?out ! 2) = ?label ex_b1" by simp
  then have p2: "property (?out ! 2) = ''Beach House''" unfolding lab(1) .
  have "status (?out ! 3) \<noteq> MISSING_IN_DB \<and> status (?out ! 3) \<noteq> MULTI_PROPERTY_REFERENCE"
    unfolding s by simp
  from a3 [THEN conjunct2, THEN conjunct2, THEN mp, OF this]
  obtain m3 where m3: "dbRecords (?out ! 3) = Some m3"
    "\<forall>b \<in> set m3. property (?out ! 3) = ?label b" by blast
  from m3(1) recs(2) have "m3 = [ex_b2]" by simp
  with m3(2) have "property (?out ! 3) = ?label ex_b2" by simp
  then have p3: "property (?out ! 3) = ''Beach House''" unfolding lab(2) .
  from 2 [THEN bspec, OF mem(3)] have q2: "property (?out ! 2) \<noteq> unmatched_label"
    unfolding s by simp
  from 2 [THEN bspec, OF mem(4)] have q3: "property (?out ! 3) \<noteq> cross_property_label"
    unfolding s by simp
  have "\<forall>r \<in> set ?out. property r \<notin> set Object_prototype_members"
    unfolding set_out using p0 p1 p2 p3
    by (simp add: Object_prototype_members_def cross_property_label_def)
  from T2 [THEN mp, OF this] obtain mp where gmp: "grouped exact ?out = Inr mp"
    by (elim exE)
  note d = D [THEN spec, THEN mp, OF gmp]
  from d [THEN conjunct1, THEN bspec, OF mem(3)]
  obtain g where g: "mp (property (?out ! 2)) = Some g" by blast
  from d [THEN conjunct2, THEN conjunct1, THEN spec, THEN spec, THEN mp, OF g]
  have "g = group_of exact (filter (\<lambda>r. property r = property (?out ! 2)) ?out)" .
  then have "g_rows g = filter (\<lambda>r. property r = property (?out ! 2)) ?out"
    by (simp add: group_of_def)
  also have "\<dots> = filter (\<lambda>r. property r = ''Beach House'') ?out"
    unfolding p2 ..
  also have "\<dots> = [?out ! 2, ?out ! 3]"
    unfolding out by (simp add: matcher_defs ex_defs Let_def)
  finally have gr: "g_rows g = [?out ! 2, ?out ! 3]" .
  from g have g': "mp ''Beach House'' = Some g" unfolding p2 .
  from gmp g' gr have "grouped exact ?out = Inr mp \<and> mp ''Beach House'' = Some g
          \<and> g_rows g = [?out ! 2, ?out ! 3]"
    by (intro conjI)
  then have "\<exists>mp g. grouped exact ?out = Inr mp \<and> mp ''Beach House'' = Some g
          \<and> g_rows g = [?out ! 2, ?out ! 3]"
    by (intro exI)
  moreover from real have "unmatched_label \<notin> set (map propertyLabel ?db)"
    and "cross_property_label \<notin> set (map propertyLabel ?db)"
    by auto
  ultimately show ?thesis using st p0 p1 p2 p3 q2 q3 by (intro conjI)
qed

text \<open>
  Against C5 as worded: the labels are not reserved, and a label can be one that the
  aggregation cannot hold. A property may be named \<^verbatim>\<open>Unmatched CSV\<close>: its rows then share a
  group with the \<open>MISSING_IN_DB\<close> rows, whose ledger amounts enter the totals of that group.
  A property may be named \<^verbatim>\<open>constructor\<close>: the aggregation of its row raises, and no row is
  grouped.
\<close>

theorem sentinel_label_collision:
  "name ex_unmatched_named = unmatched_label
   \<and> propertyId ex_b6 = Some ex_unmatched_named
   \<and> map status (rows exact [ex_b6] [ex_c6, ex_c2]) = [OK, MISSING_IN_DB]
   \<and> map property (rows exact [ex_b6] [ex_c6, ex_c2]) = [unmatched_label, unmatched_label]
   \<and> map_option g_rows (group_at exact (rows exact [ex_b6] [ex_c6, ex_c2]) unmatched_label)
        = Some (rows exact [ex_b6] [ex_c6, ex_c2])
   \<and> map_option csvTotal (group_at exact (rows exact [ex_b6] [ex_c6, ex_c2]) unmatched_label)
        = Some (Num 280)
   \<and> map_option safeTotal (group_at exact (rows exact [ex_b6] [ex_c6, ex_c2]) unmatched_label)
        = Some (Num 200)
   \<and> map status (rows exact [ex_b8] [ex_c8]) = [OK]
   \<and> map property (rows exact [ex_b8] [ex_c8]) = [''constructor'']
   \<and> grouped exact (rows exact [ex_b8] [ex_c8]) = Inl TypeError"
proof -
  let ?out = "rows exact [ex_b6] [ex_c6, ex_c2]"
  have out: "?out = [matched_row exact ex_c6 [ex_b6], missing_in_db_row ex_c2]"
    by (simp add: rows_def csv_step_def db_step_def matched_def matches_def ex_defs)
  have st: "map status ?out = [OK, MISSING_IN_DB]"
    unfolding out by (simp add: matcher_defs ex_defs Let_def)
  have pr: "map property ?out = [unmatched_label, unmatched_label]"
    unfolding out by (simp add: matcher_defs ex_defs Let_def)
  have nets: "map csvNet ?out = [Some (Num 200), Some (Num 80)]"
    unfolding out by (simp add: matcher_defs ex_defs Let_def)
  have f: "filter (\<lambda>r. property r = unmatched_label) ?out = ?out"
    using pr unfolding out by simp
  have "\<not> (\<exists>r \<in> set ?out. property r \<in> set Object_prototype_members)"
    using pr unfolding out by (simp add: labels_not_prototype_members)
  then have mp: "grouped exact ?out = Inr (groups_of exact ?out)"
    by (simp only: grouped_eq if_False)
  have "groups_of exact ?out unmatched_label = Some (group_of exact ?out)"
    unfolding groups_of_def f unfolding out by simp
  then have g: "group_at exact ?out unmatched_label = Some (group_of exact ?out)"
    by (simp add: group_at_def mp)
  have c: "csvTotal (group_of exact ?out) = Num 280"
    and s: "safeTotal (group_of exact ?out) = Num 200"
    using st nets unfolding out
    by (simp_all add: group_of_def or0_def js_sum_exact_simps exact_def)
  have r: "g_rows (group_of exact ?out) = ?out" by (simp add: group_of_def)
  have n: "name ex_unmatched_named = unmatched_label"
    by (simp add: ex_unmatched_named_def unmatched_label_def)
  have p: "propertyId ex_b6 = Some ex_unmatched_named" by (simp add: ex_b6_def)
  let ?out2 = "rows exact [ex_b8] [ex_c8]"
  have out2: "?out2 = [matched_row exact ex_c8 [ex_b8]]"
    by (simp add: rows_def csv_step_def db_step_def matched_def matches_def ex_defs)
  have st2: "map status ?out2 = [OK]"
    unfolding out2 by (simp add: matcher_defs ex_defs Let_def)
  have pr2: "map property ?out2 = [''constructor'']"
    unfolding out2 by (simp add: matcher_defs ex_defs Let_def)
  have "\<exists>r \<in> set ?out2. property r \<in> set Object_prototype_members"
    using pr2 unfolding out2 by (simp add: Object_prototype_members_def)
  then have e: "grouped exact ?out2 = Inl TypeError"
    by (simp only: grouped_eq if_True)
  from n p st pr st2 pr2 e show ?thesis
    unfolding g by (simp add: c s r)
qed

subsection \<open>Income totals\<close>

lemma foldl_totals_step:
  "foldl (totals_step rd) t records =
     \<lparr> booking = foldl (num_add rd) (booking t)
         (map (\<lambda>b. or0 (d_amount b)) (filter (\<lambda>b. d_platform b = Some ''Booking.com'') records)),
       agoda = foldl (num_add rd) (agoda t)
         (map (\<lambda>b. or0 (d_amount b)) (filter (\<lambda>b. d_platform b = Some ''Agoda'') records)),
       airbnb = foldl (num_add rd) (airbnb t)
         (map (\<lambda>b. or0 (d_amount b)) (filter (\<lambda>b. d_platform b = Some ''Airbnb'') records)),
       expedia = foldl (num_add rd) (expedia t)
         (map (\<lambda>b. or0 (d_amount b)) (filter (\<lambda>b. d_platform b = Some ''Expedia'') records)),
       directBank = foldl (num_add rd) (directBank t)
         (map (\<lambda>b. or0 (d_amount b))
           (filter (\<lambda>b. d_platform b = Some ''Direct'' \<and> d_paymentMethod b = Some ''bank'') records)),
       directCash = foldl (num_add rd) (directCash t)
         (map (\<lambda>b. or0 (d_amount b))
           (filter (\<lambda>b. d_platform b = Some ''Direct'' \<and> d_paymentMethod b = Some ''cash'') records)),
       netTotal = foldl (num_add rd) (netTotal t) (map (\<lambda>b. or0 (d_amount b)) records) \<rparr>"
proof (induction records arbitrary: t)
  case Nil
  then show ?case by simp
next
  case (Cons b bs)
  have 1: "booking (totals_step rd t b) =
      (if d_platform b = Some ''Booking.com'' then num_add rd (booking t) (or0 (d_amount b))
       else booking t)"
    by (simp add: totals_step_def Let_def)
  have 2: "agoda (totals_step rd t b) =
      (if d_platform b = Some ''Agoda'' then num_add rd (agoda t) (or0 (d_amount b))
       else agoda t)"
    by (simp add: totals_step_def Let_def)
  have 3: "airbnb (totals_step rd t b) =
      (if d_platform b = Some ''Airbnb'' then num_add rd (airbnb t) (or0 (d_amount b))
       else airbnb t)"
    by (simp add: totals_step_def Let_def)
  have 4: "expedia (totals_step rd t b) =
      (if d_platform b = Some ''Expedia'' then num_add rd (expedia t) (or0 (d_amount b))
       else expedia t)"
    by (simp add: totals_step_def Let_def)
  have 5: "directBank (totals_step rd t b) =
      (if d_platform b = Some ''Direct'' \<and> d_paymentMethod b = Some ''bank''
       then num_add rd (directBank t) (or0 (d_amount b)) else directBank t)"
    by (simp add: totals_step_def Let_def)
  have 6: "directCash (totals_step rd t b) =
      (if d_platform b = Some ''Direct'' \<and> d_paymentMethod b = Some ''cash''
       then num_add rd (directCash t) (or0 (d_amount b)) else directCash t)"
    by (simp add: totals_step_def Let_def)
  have 7: "netTotal (totals_step rd t b) = num_add rd (netTotal t) (or0 (d_amount b))"
    by (simp add: totals_step_def Let_def)
  have "foldl (totals_step rd) t (b # bs) = foldl (totals_step rd) (totals_step rd t b) bs"
    by simp
  also note Cons.IH [of "totals_step rd t b"]
  finally show ?case
    unfolding 1 2 3 4 5 6 7 by simp
qed

lemma income_totals_eq:
  "income_totals rd records =
     \<lparr> booking = bucket_sum rd (\<lambda>b. d_platform b = Some ''Booking.com'') records,
       agoda = bucket_sum rd (\<lambda>b. d_platform b = Some ''Agoda'') records,
       airbnb = bucket_sum rd (\<lambda>b. d_platform b = Some ''Airbnb'') records,
       expedia = bucket_sum rd (\<lambda>b. d_platform b = Some ''Expedia'') records,
       directBank =
         bucket_sum rd (\<lambda>b. d_platform b = Some ''Direct'' \<and> d_paymentMethod b = Some ''bank'') records,
       directCash =
         bucket_sum rd (\<lambda>b. d_platform b = Some ''Direct'' \<and> d_paymentMethod b = Some ''cash'') records,
       netTotal = bucket_sum rd (\<lambda>b. True) records \<rparr>"
  unfolding income_totals_def foldl_totals_step
  by (simp add: zero_totals_def bucket_sum_def js_sum_def)

lemma buckets_of_eq: "buckets_of b = (if in_no_bucket b then 0 else 1)"
  by (auto simp: buckets_of_def bucket_conditions_def in_no_bucket_def)

text \<open>
  C7, as amended. Each of the four platform buckets is the sum, as the code computes it, from
  \<open>0\<close> and in the order of the records, of the collected amounts of the records of the
  platform; \<open>directBank\<close> and \<open>directCash\<close> are these sums over the Direct records paid by
  bank and by cash; \<open>netTotal\<close> is this sum over all records. A missing amount, one that is
  not a number and \<open>0\<close> count as \<open>0\<close>. A record is added to at most one bucket: to none when
  it is a Direct record paid otherwise than by bank or cash, or has another platform than
  the five, and to exactly one otherwise.
\<close>

theorem income_totals_buckets:
  "booking (income_totals rd records) =
       js_sum rd (map (\<lambda>b. or0 (d_amount b))
                   (filter (\<lambda>b. d_platform b = Some ''Booking.com'') records))
   \<and> agoda (income_totals rd records) =
       js_sum rd (map (\<lambda>b. or0 (d_amount b)) (filter (\<lambda>b. d_platform b = Some ''Agoda'') records))
   \<and> airbnb (income_totals rd records) =
       js_sum rd (map (\<lambda>b. or0 (d_amount b)) (filter (\<lambda>b. d_platform b = Some ''Airbnb'') records))
   \<and> expedia (income_totals rd records) =
       js_sum rd (map (\<lambda>b. or0 (d_amount b)) (filter (\<lambda>b. d_platform b = Some ''Expedia'') records))
   \<and> directBank (income_totals rd records) =
       js_sum rd (map (\<lambda>b. or0 (d_amount b))
         (filter (\<lambda>b. d_platform b = Some ''Direct'' \<and> d_paymentMethod b = Some ''bank'') records))
   \<and> directCash (income_totals rd records) =
       js_sum rd (map (\<lambda>b. or0 (d_amount b))
         (filter (\<lambda>b. d_platform b = Some ''Direct'' \<and> d_paymentMethod b = Some ''cash'') records))
   \<and> netTotal (income_totals rd records) = js_sum rd (map (\<lambda>b. or0 (d_amount b)) records)
   \<and> (\<forall>b. or0 (d_amount b) =
            (case d_amount b of None \<Rightarrow> Num 0 | Some a \<Rightarrow> if a = NaN then Num 0 else a))
   \<and> (\<forall>b. buckets_of b = (if in_no_bucket b then 0 else 1))
   \<and> (\<forall>b. in_no_bucket b \<longleftrightarrow>
            d_platform b \<noteq> Some ''Booking.com'' \<and> d_platform b \<noteq> Some ''Agoda''
          \<and> d_platform b \<noteq> Some ''Airbnb'' \<and> d_platform b \<noteq> Some ''Expedia''
          \<and> (d_platform b = Some ''Direct'' \<longrightarrow>
                d_paymentMethod b \<noteq> Some ''bank'' \<and> d_paymentMethod b \<noteq> Some ''cash''))"
proof -
  have "\<forall>b. in_no_bucket b \<longleftrightarrow>
            d_platform b \<noteq> Some ''Booking.com'' \<and> d_platform b \<noteq> Some ''Agoda''
          \<and> d_platform b \<noteq> Some ''Airbnb'' \<and> d_platform b \<noteq> Some ''Expedia''
          \<and> (d_platform b = Some ''Direct'' \<longrightarrow>
                d_paymentMethod b \<noteq> Some ''bank'' \<and> d_paymentMethod b \<noteq> Some ''cash'')"
    by (auto simp: in_no_bucket_def)
  moreover have "\<forall>b. or0 (d_amount b) =
            (case d_amount b of None \<Rightarrow> Num 0 | Some a \<Rightarrow> if a = NaN then Num 0 else a)"
    by (simp add: or0_alt)
  ultimately show ?thesis
    unfolding income_totals_eq using buckets_of_eq by (simp add: bucket_sum_def)
qed

lemmas doc_defs = ex_doc_def ex_doc2_def ex_doc3_def ex_doc4_def ex_cancelled_def ex_data_def
  ex_data_no_guest_def

theorem income_totals_buckets_witness:
  "d_platform ex_doc3 = Some ''Direct'' \<and> d_paymentMethod ex_doc3 = Some ''bank''
   \<and> d_amount ex_doc4 = None
   \<and> income_totals exact [ex_doc2, ex_doc3, ex_doc4, ex_doc2] =
       \<lparr> booking = Num 100, agoda = Num 0, airbnb = Num 0, expedia = Num 0,
         directBank = Num 30, directCash = Num 0, netTotal = Num 130 \<rparr>
   \<and> map buckets_of [ex_doc2, ex_doc3, ex_doc4, ex_doc] = [1, 1, 1, 0]"
proof -
  let ?rs = "[ex_doc2, ex_doc3, ex_doc4, ex_doc2]"
  let ?amt = "\<lambda>b. or0 (d_amount b)"
  let ?none = "\<lambda>b. d_platform b \<noteq> Some ''Booking.com'' \<and> d_platform b \<noteq> Some ''Agoda''
          \<and> d_platform b \<noteq> Some ''Airbnb'' \<and> d_platform b \<noteq> Some ''Expedia''
          \<and> (d_platform b = Some ''Direct'' \<longrightarrow>
                d_paymentMethod b \<noteq> Some ''bank'' \<and> d_paymentMethod b \<noteq> Some ''cash'')"
  note t = income_totals_buckets [of exact ?rs]
  note t1 = t [THEN conjunct1]
  note t2 = t [THEN conjunct2, THEN conjunct1]
  note t3 = t [THEN conjunct2, THEN conjunct2, THEN conjunct1]
  note t4 = t [THEN conjunct2, THEN conjunct2, THEN conjunct2, THEN conjunct1]
  note t5 = t [THEN conjunct2, THEN conjunct2, THEN conjunct2, THEN conjunct2, THEN conjunct1]
  note t6 = t [THEN conjunct2, THEN conjunct2, THEN conjunct2, THEN conjunct2, THEN conjunct2,
               THEN conjunct1]
  note t7 = t [THEN conjunct2, THEN conjunct2, THEN conjunct2, THEN conjunct2, THEN conjunct2,
               THEN conjunct2, THEN conjunct1]
  note t9 = t [THEN conjunct2, THEN conjunct2, THEN conjunct2, THEN conjunct2, THEN conjunct2,
               THEN conjunct2, THEN conjunct2, THEN conjunct2, THEN conjunct1]
  note t10 = t [THEN conjunct2, THEN conjunct2, THEN conjunct2, THEN conjunct2, THEN conjunct2,
                THEN conjunct2, THEN conjunct2, THEN conjunct2, THEN conjunct2]
  have e: "\<not> ?none ex_doc2" "\<not> ?none ex_doc3" "\<not> ?none ex_doc4" "?none ex_doc"
    by (simp_all add: doc_defs)
  have nb: "\<not> in_no_bucket ex_doc2" "\<not> in_no_bucket ex_doc3" "\<not> in_no_bucket ex_doc4"
    "in_no_bucket ex_doc"
    using e unfolding t10 [THEN spec, of ex_doc2] t10 [THEN spec, of ex_doc3]
      t10 [THEN spec, of ex_doc4] t10 [THEN spec, of ex_doc] .
  have m: "map buckets_of [ex_doc2, ex_doc3, ex_doc4, ex_doc] = [1, 1, 1, 0]"
    by (simp add: t9 [THEN spec] nb)
  have r: "js_sum exact (map ?amt (filter (\<lambda>b. d_platform b = Some ''Booking.com'') ?rs)) = Num 100"
    "js_sum exact (map ?amt (filter (\<lambda>b. d_platform b = Some ''Agoda'') ?rs)) = Num 0"
    "js_sum exact (map ?amt (filter (\<lambda>b. d_platform b = Some ''Airbnb'') ?rs)) = Num 0"
    "js_sum exact (map ?amt (filter (\<lambda>b. d_platform b = Some ''Expedia'') ?rs)) = Num 0"
    "js_sum exact (map ?amt
       (filter (\<lambda>b. d_platform b = Some ''Direct'' \<and> d_paymentMethod b = Some ''bank'') ?rs))
       = Num 30"
    "js_sum exact (map ?amt
       (filter (\<lambda>b. d_platform b = Some ''Direct'' \<and> d_paymentMethod b = Some ''cash'') ?rs))
       = Num 0"
    "js_sum exact (map ?amt ?rs) = Num 130"
    by (simp_all add: js_sum_def or0_def exact_def doc_defs)
  have "income_totals exact ?rs =
       \<lparr> booking = Num 100, agoda = Num 0, airbnb = Num 0, expedia = Num 0,
         directBank = Num 30, directCash = Num 0, netTotal = Num 130 \<rparr>"
    by (rule Totals.equality)
       (simp_all add: trans [OF t1 r(1)] trans [OF t2 r(2)] trans [OF t3 r(3)] trans [OF t4 r(4)]
          trans [OF t5 r(5)] trans [OF t6 r(6)] trans [OF t7 r(7)])
  moreover have "d_platform ex_doc3 = Some ''Direct''" "d_paymentMethod ex_doc3 = Some ''bank''"
    "d_amount ex_doc4 = None"
    by (simp_all add: doc_defs)
  ultimately show ?thesis using m by simp
qed

text \<open>
  Against C7 as worded: a Direct booking paid by card, which the schema allows, is counted
  in \<open>netTotal\<close> and in no bucket.
\<close>

theorem direct_card_reaches_no_bucket:
  "d_platform ex_doc = Some ''Direct'' \<and> d_paymentMethod ex_doc = Some ''card''
   \<and> d_status ex_doc = Some ''booked'' \<and> d_amount ex_doc = Some (Num 100)
   \<and> buckets_of ex_doc = 0
   \<and> income_totals exact [ex_doc] =
       \<lparr> booking = Num 0, agoda = Num 0, airbnb = Num 0, expedia = Num 0,
         directBank = Num 0, directCash = Num 0, netTotal = Num 100 \<rparr>"
  by (simp add: income_totals_def totals_step_def zero_totals_def or0_def Let_def ex_doc_def
      exact_def buckets_of_def bucket_conditions_def)

subsection \<open>Creating and updating a booking\<close>

lemma findOne_active_None_iff:
  "findOne_active rid db = None
     \<longleftrightarrow> \<not> (\<exists>b \<in> set db. d_reservationId b = Some rid \<and> d_status b \<noteq> Some ''cancel'')"
  by (auto simp: findOne_active_def find_None_iff)

lemma or_str_cases:
  "(v = None \<or> v = Some [] \<longrightarrow> or_str v d = d) \<and> (\<forall>s. v = Some s \<and> s \<noteq> [] \<longrightarrow> or_str v d = s)"
  by (auto simp: or_str_def)

lemma truncate_extend: "BookingData.truncate (BookingData.extend (r::BookingData) m) = r"
  by (cases r) (simp add: BookingData.truncate_def BookingData.extend_def)

text \<open>
  C8, as amended. The reservation reference is the one supplied, or the generated
  \<^verbatim>\<open>AUTO-<now>-<random>\<close> when none (or an empty one) is supplied. When a stored booking
  that is not cancelled has this reference, the answer is the conflict response 409 and the
  collection is unchanged. When no stored booking has this reference and the document, with
  this reference and with the supplied status or \<^verbatim>\<open>booked\<close> when none is supplied, passes the
  validators of the schema, the booking is created with this reference, this status and the
  supplied fields, and it is the answer. When no stored booking that is not cancelled has the
  reference and the document does not pass the validators, the answer is the failure
  response 500 and the collection is unchanged.
\<close>

theorem create_booking:
  "((d_reservationId data = None \<or> d_reservationId data = Some []) \<longrightarrow>
       or_str (d_reservationId data) (auto_reservationId now rnd) = auto_reservationId now rnd
       \<and> auto_reservationId now rnd = ''AUTO-'' @ decimal now @ ''-'' @ decimal rnd)
   \<and> (\<forall>r. d_reservationId data = Some r \<and> r \<noteq> [] \<longrightarrow>
         or_str (d_reservationId data) (auto_reservationId now rnd) = r)
   \<and> ((\<exists>b \<in> set db.
          d_reservationId b = Some (or_str (d_reservationId data) (auto_reservationId now rnd))
          \<and> d_status b \<noteq> Some ''cancel'') \<longrightarrow>
       POST now rnd newId db data = (Error ''Reservation ID already exists'' 409, db))
   \<and> (\<not> (\<exists>b \<in> set db.
          d_reservationId b = Some (or_str (d_reservationId data) (auto_reservationId now rnd)))
        \<and> schema_valid (data\<lparr> d_reservationId :=
                               Some (or_str (d_reservationId data) (auto_reservationId now rnd)),
                             d_status := Some (or_str (d_status data) ''booked'') \<rparr>) \<longrightarrow>
       (\<exists>created.
          POST now rnd newId db data = (Json (Some created), db @ [created])
          \<and> d_id created = newId
          \<and> d_reservationId created =
              Some (or_str (d_reservationId data) (auto_reservationId now rnd))
          \<and> d_status created = Some (or_str (d_status data) ''booked'')
          \<and> ((d_status data = None \<or> d_status data = Some []) \<longrightarrow>
                d_status created = Some ''booked'')
          \<and> BookingData.truncate created =
              data\<lparr> d_reservationId :=
                      Some (or_str (d_reservationId data) (auto_reservationId now rnd)),
                    d_status := Some (or_str (d_status data) ''booked'') \<rparr>))
   \<and> (\<not> (\<exists>b \<in> set db.
          d_reservationId b = Some (or_str (d_reservationId data) (auto_reservationId now rnd))
          \<and> d_status b \<noteq> Some ''cancel'')
        \<and> \<not> schema_valid (data\<lparr> d_reservationId :=
                               Some (or_str (d_reservationId data) (auto_reservationId now rnd)),
                             d_status := Some (or_str (d_status data) ''booked'') \<rparr>) \<longrightarrow>
       POST now rnd newId db data = (Error ''Failed to create booking'' 500, db))"
proof -
  let ?rid = "or_str (d_reservationId data) (auto_reservationId now rnd)"
  let ?doc = "data\<lparr> d_reservationId := Some ?rid,
                    d_status := Some (or_str (d_status data) ''booked'') \<rparr>"
  let ?dup = "\<exists>b \<in> set db. d_reservationId b = Some ?rid \<and> d_status b \<noteq> Some ''cancel''"
  let ?held = "\<exists>b \<in> set db. d_reservationId b = Some ?rid"
  have a: "(d_reservationId data = None \<or> d_reservationId data = Some []) \<longrightarrow>
       ?rid = auto_reservationId now rnd
       \<and> auto_reservationId now rnd = ''AUTO-'' @ decimal now @ ''-'' @ decimal rnd"
    using or_str_cases [of "d_reservationId data" "auto_reservationId now rnd"]
    by (simp add: auto_reservationId_def)
  have b: "\<forall>r. d_reservationId data = Some r \<and> r \<noteq> [] \<longrightarrow> ?rid = r"
    using or_str_cases [of "d_reservationId data" "auto_reservationId now rnd"] by blast
  have c: "?dup \<longrightarrow>
      POST now rnd newId db data = (Error ''Reservation ID already exists'' 409, db)"
  proof
    assume ?dup
    then have "findOne_active ?rid db \<noteq> None"
      by (simp add: findOne_active_None_iff)
    then obtain e where "findOne_active ?rid db = Some e" by blast
    then show "POST now rnd newId db data = (Error ''Reservation ID already exists'' 409, db)"
      by (simp add: POST_def Let_def)
  qed
  have d: "\<not> ?held \<and> schema_valid ?doc \<longrightarrow> (\<exists>created.
          POST now rnd newId db data = (Json (Some created), db @ [created])
          \<and> d_id created = newId
          \<and> d_reservationId created = Some ?rid
          \<and> d_status created = Some (or_str (d_status data) ''booked'')
          \<and> ((d_status data = None \<or> d_status data = Some []) \<longrightarrow>
                d_status created = Some ''booked'')
          \<and> BookingData.truncate created = ?doc)"
  proof
    assume h: "\<not> ?held \<and> schema_valid ?doc"
    let ?created = "BookingData.extend ?doc (IBooking.fields newId)"
    from h have "findOne_active ?rid db = None"
      by (auto simp: findOne_active_None_iff)
    moreover from h have "Booking_create db ?doc newId = Inr (?created, db @ [?created])"
      by (simp add: Booking_create_def Let_def)
    ultimately
    have 1: "POST now rnd newId db data = (Json (Some ?created), db @ [?created])"
      by (simp add: POST_def Let_def)
    have 2: "d_id ?created = newId" "d_reservationId ?created = Some ?rid"
      "d_status ?created = Some (or_str (d_status data) ''booked'')"
      by (simp_all add: BookingData.defs IBooking.defs)
    have 3: "BookingData.truncate ?created = ?doc"
      by (rule truncate_extend)
    have 4: "(d_status data = None \<or> d_status data = Some []) \<longrightarrow>
                d_status ?created = Some ''booked''"
      using or_str_cases [of "d_status data" "''booked''"] 2(3) by auto
    show "\<exists>created.
          POST now rnd newId db data = (Json (Some created), db @ [created])
          \<and> d_id created = newId
          \<and> d_reservationId created = Some ?rid
          \<and> d_status created = Some (or_str (d_status data) ''booked'')
          \<and> ((d_status data = None \<or> d_status data = Some []) \<longrightarrow>
                d_status created = Some ''booked'')
          \<and> BookingData.truncate created = ?doc"
      apply (intro exI conjI)
           apply (rule 1)
          apply (rule 2(1))
         apply (rule 2(2))
        apply (rule 2(3))
       apply (rule 4)
      apply (rule 3)
      done
  qed
  have e: "\<not> ?dup \<and> \<not> schema_valid ?doc \<longrightarrow>
      POST now rnd newId db data = (Error ''Failed to create booking'' 500, db)"
  proof
    assume h: "\<not> ?dup \<and> \<not> schema_valid ?doc"
    then have "findOne_active ?rid db = None"
      by (simp add: findOne_active_None_iff)
    moreover from h have "Booking_create db ?doc newId = Inl ValidationError"
      by (simp add: Booking_create_def)
    ultimately show "POST now rnd newId db data = (Error ''Failed to create booking'' 500, db)"
      by (simp add: POST_def Let_def)
  qed
  from a b c d e show ?thesis by (intro conjI)
qed

lemma auto_reservationId_example: "auto_reservationId 1723 42 = ''AUTO-1723-42''"
  by (simp add: auto_reservationId_def decimal.simps digit_char_def)

theorem create_booking_witness:
  "POST 1723 42 (ObjectId 9) [ex_doc] (ex_data\<lparr> d_reservationId := Some ''R-1'' \<rparr>)
     = (Error ''Reservation ID already exists'' 409, [ex_doc])
   \<and> d_reservationId ex_data = None \<and> d_status ex_data = None
   \<and> (\<exists>created.
         POST 1723 42 (ObjectId 9) [ex_doc] ex_data = (Json (Some created), [ex_doc] @ [created])
         \<and> d_id created = ObjectId 9
         \<and> d_reservationId created = Some ''AUTO-1723-42''
         \<and> d_status created = Some ''booked''
         \<and> BookingData.truncate created
              = ex_data\<lparr> d_reservationId := Some ''AUTO-1723-42'', d_status := Some ''booked'' \<rparr>)
   \<and> d_guestName ex_data_no_guest = None
   \<and> POST 1723 42 (ObjectId 9) [ex_doc] ex_data_no_guest
       = (Error ''Failed to create booking'' 500, [ex_doc])"
proof -
  let ?d1 = "ex_data\<lparr> d_reservationId := Some ''R-1'' \<rparr>"
  note au = auto_reservationId_example
  have r1: "or_str (d_reservationId ?d1) (auto_reservationId 1723 42) = ''R-1''"
    by (simp add: or_str_def)
  have dup: "\<exists>b \<in> set [ex_doc].
          d_reservationId b = Some (or_str (d_reservationId ?d1) (auto_reservationId 1723 42))
          \<and> d_status b \<noteq> Some ''cancel''"
    unfolding r1 by (simp add: ex_doc_def)
  note t1 = create_booking [of ?d1 1723 42 "[ex_doc]" "ObjectId 9"]
  from t1 [THEN conjunct2, THEN conjunct2, THEN conjunct1, THEN mp, OF dup]
  have 1: "POST 1723 42 (ObjectId 9) [ex_doc] ?d1
     = (Error ''Reservation ID already exists'' 409, [ex_doc])" .
  have n: "d_reservationId ex_data = None" "d_status ex_data = None"
    by (simp_all add: ex_data_def)
  have r2: "or_str (d_reservationId ex_data) (auto_reservationId 1723 42) = ''AUTO-1723-42''"
    by (simp add: or_str_def n au)
  have s2: "or_str (d_status ex_data) ''booked'' = ''booked''"
    by (simp add: or_str_def n)
  have ok: "\<not> (\<exists>b \<in> set [ex_doc].
          d_reservationId b = Some (or_str (d_reservationId ex_data) (auto_reservationId 1723 42)))
        \<and> schema_valid (ex_data\<lparr> d_reservationId :=
               Some (or_str (d_reservationId ex_data) (auto_reservationId 1723 42)),
             d_status := Some (or_str (d_status ex_data) ''booked'') \<rparr>)"
    unfolding r2 s2
    by (simp add: schema_valid_def platform_enum_def paymentMethod_enum_def status_enum_def
        ex_doc_def ex_data_def)
  note t2 = create_booking [of ex_data 1723 42 "[ex_doc]" "ObjectId 9"]
  from t2 [THEN conjunct2, THEN conjunct2, THEN conjunct2, THEN conjunct1, THEN mp, OF ok]
  obtain created where c:
    "POST 1723 42 (ObjectId 9) [ex_doc] ex_data = (Json (Some created), [ex_doc] @ [created])"
    "d_id created = ObjectId 9"
    "d_reservationId created = Some (or_str (d_reservationId ex_data) (auto_reservationId 1723 42))"
    "d_status created = Some (or_str (d_status ex_data) ''booked'')"
    "BookingData.truncate created
       = ex_data\<lparr> d_reservationId :=
                    Some (or_str (d_reservationId ex_data) (auto_reservationId 1723 42)),
                  d_status := Some (or_str (d_status ex_data) ''booked'') \<rparr>"
    by blast
  have 2: "\<exists>created.
         POST 1723 42 (ObjectId 9) [ex_doc] ex_data = (Json (Some created), [ex_doc] @ [created])
         \<and> d_id created = ObjectId 9
         \<and> d_reservationId created = Some ''AUTO-1723-42''
         \<and> d_status created = Some ''booked''
         \<and> BookingData.truncate created
              = ex_data\<lparr> d_reservationId := Some ''AUTO-1723-42'', d_status := Some ''booked'' \<rparr>"
    apply (intro exI conjI)
        apply (rule c(1))
       apply (rule c(2))
      apply (rule c(3) [unfolded r2])
     apply (rule c(4) [unfolded s2])
    apply (rule c(5) [unfolded r2 s2])
    done
  have n3: "d_reservationId ex_data_no_guest = None" "d_status ex_data_no_guest = None"
    "d_guestName ex_data_no_guest = None"
    by (simp_all add: ex_data_no_guest_def ex_data_def)
  have r3: "or_str (d_reservationId ex_data_no_guest) (auto_reservationId 1723 42) = ''AUTO-1723-42''"
    by (simp add: or_str_def n3 au)
  have bad: "\<not> (\<exists>b \<in> set [ex_doc].
          d_reservationId b
            = Some (or_str (d_reservationId ex_data_no_guest) (auto_reservationId 1723 42))
          \<and> d_status b \<noteq> Some ''cancel'')
        \<and> \<not> schema_valid (ex_data_no_guest\<lparr> d_reservationId :=
               Some (or_str (d_reservationId ex_data_no_guest) (auto_reservationId 1723 42)),
             d_status := Some (or_str (d_status ex_data_no_guest) ''booked'') \<rparr>)"
    unfolding r3
    by (simp add: schema_valid_def ex_doc_def ex_data_no_guest_def ex_data_def)
  note t3 = create_booking [of ex_data_no_guest 1723 42 "[ex_doc]" "ObjectId 9"]
  from t3 [THEN conjunct2, THEN conjunct2, THEN conjunct2, THEN conjunct2, THEN mp, OF bad]
  have 3: "POST 1723 42 (ObjectId 9) [ex_doc] ex_data_no_guest
       = (Error ''Failed to create booking'' 500, [ex_doc])" .
  from 1 n 2 n3(3) 3 show ?thesis by (intro conjI)
qed

text \<open>
  Against C8 as worded: no stored booking that is not cancelled has the reference, and no
  booking is created. A body without a guest name does not pass the validators of the
  schema. A reference that only a cancelled booking holds passes the search for a duplicate,
  and the unique index of the collection refuses it. Both answers are the failure response
  500, and the collection is unchanged.
\<close>

theorem create_refused_without_active_duplicate:
  "findOne_active ''AUTO-1723-42'' [ex_doc] = None
   \<and> d_guestName ex_data_no_guest = None
   \<and> POST 1723 42 (ObjectId 9) [ex_doc] ex_data_no_guest
       = (Error ''Failed to create booking'' 500, [ex_doc])
   \<and> d_reservationId ex_cancelled = Some ''R-5'' \<and> d_status ex_cancelled = Some ''cancel''
   \<and> findOne_active ''R-5'' [ex_cancelled] = None
   \<and> schema_valid (ex_data\<lparr> d_reservationId := Some ''R-5'', d_status := Some ''booked'' \<rparr>)
   \<and> POST 1723 42 (ObjectId 9) [ex_cancelled] (ex_data\<lparr> d_reservationId := Some ''R-5'' \<rparr>)
       = (Error ''Failed to create booking'' 500, [ex_cancelled])"
proof -
  have f1: "findOne_active ''AUTO-1723-42'' [ex_doc] = None"
    by (simp add: findOne_active_def ex_doc_def)
  have g: "d_guestName ex_data_no_guest = None"
    by (simp add: ex_data_no_guest_def ex_data_def)
  have r1: "or_str (d_reservationId ex_data_no_guest) (auto_reservationId 1723 42) = ''AUTO-1723-42''"
    by (simp add: or_str_def ex_data_no_guest_def ex_data_def auto_reservationId_example)
  have p1: "POST 1723 42 (ObjectId 9) [ex_doc] ex_data_no_guest
       = (Error ''Failed to create booking'' 500, [ex_doc])"
    unfolding POST_def r1 Let_def f1
    by (simp add: Booking_create_def schema_valid_def g)
  have c: "d_reservationId ex_cancelled = Some ''R-5''" "d_status ex_cancelled = Some ''cancel''"
    by (simp_all add: ex_cancelled_def ex_doc_def)
  have f2: "findOne_active ''R-5'' [ex_cancelled] = None"
    by (simp add: findOne_active_def c)
  have v: "schema_valid (ex_data\<lparr> d_reservationId := Some ''R-5'', d_status := Some ''booked'' \<rparr>)"
    by (simp add: schema_valid_def platform_enum_def paymentMethod_enum_def status_enum_def
        ex_data_def)
  have r2: "or_str (d_reservationId (ex_data\<lparr> d_reservationId := Some ''R-5'' \<rparr>))
              (auto_reservationId 1723 42) = ''R-5''"
    by (simp add: or_str_def)
  have s2: "or_str (d_status (ex_data\<lparr> d_reservationId := Some ''R-5'' \<rparr>)) ''booked'' = ''booked''"
    by (simp add: or_str_def ex_data_def)
  have p2: "POST 1723 42 (ObjectId 9) [ex_cancelled] (ex_data\<lparr> d_reservationId := Some ''R-5'' \<rparr>)
       = (Error ''Failed to create booking'' 500, [ex_cancelled])"
    unfolding POST_def r2 s2 Let_def f2
    using v by (simp add: Booking_create_def c)
  from f1 g p1 c f2 v p2 show ?thesis by (intro conjI)
qed

lemma update_by_id_hit:
  assumes "\<exists>b \<in> set db. d_id b = i"
  shows "\<exists>b \<in> set db. d_id b = i
           \<and> fst (update_by_id i f db) = Some (f b)
           \<and> f b \<in> set (snd (update_by_id i f db))"
  using assms
proof (induction db)
  case Nil
  then show ?case by simp
next
  case (Cons a db)
  show ?case
  proof (cases "d_id a = i")
    case True
    then show ?thesis by simp
  next
    case False
    with Cons.prems have "\<exists>b \<in> set db. d_id b = i" by auto
    from Cons.IH [OF this] obtain b where "b \<in> set db" "d_id b = i"
      "fst (update_by_id i f db) = Some (f b)"
      "f b \<in> set (snd (update_by_id i f db))"
      by blast
    with False show ?thesis
      by (cases "update_by_id i f db") auto
  qed
qed

lemma status_enum_set: "set status_enum = {''booked'', ''checkin'', ''checkout'', ''cancel''}"
  by (simp add: status_enum_def)

lemma not_in_enum: "''checked_in'' \<notin> set status_enum" "''checked_out'' \<notin> set status_enum"
  by (simp_all add: status_enum_def)

lemma patch_response_hit:
  assumes "b \<in> set db"
  shows "\<exists>u. patch_response db (findByIdAndUpdate (AnId (d_id b)) (\<lambda>b. b\<lparr> d_status := Some s \<rparr>) db)
               = (Json (Some u),
                  snd (patch_response db
                         (findByIdAndUpdate (AnId (d_id b)) (\<lambda>b. b\<lparr> d_status := Some s \<rparr>) db)))
             \<and> d_status u = Some s
             \<and> u \<in> set (snd (patch_response db
                         (findByIdAndUpdate (AnId (d_id b)) (\<lambda>b. b\<lparr> d_status := Some s \<rparr>) db)))"
proof -
  from assms have "\<exists>x \<in> set db. d_id x = d_id b" by blast
  from update_by_id_hit [OF this, of "\<lambda>b. b\<lparr> d_status := Some s \<rparr>"]
  show ?thesis
    by (auto simp: patch_response_def findByIdAndUpdate_def split: prod.splits)
qed

lemma PATCH_status:
  assumes "b \<in> set db" "(a, s) \<in> {(''checkin'', ''checked_in''), (''checkout'', ''checked_out'')}"
  shows "\<exists>u. PATCH db \<lparr> bookingId = AnId (d_id b), action = Some a, roomId = rm \<rparr>
               = (Json (Some u), snd (PATCH db \<lparr> bookingId = AnId (d_id b), action = Some a, roomId = rm \<rparr>))
             \<and> d_status u = Some s
             \<and> u \<in> set (snd (PATCH db \<lparr> bookingId = AnId (d_id b), action = Some a, roomId = rm \<rparr>))"
proof -
  from assms(2) consider "a = ''checkin''" "s = ''checked_in''" | "a = ''checkout''" "s = ''checked_out''"
    by auto
  then show ?thesis
  proof cases
    case 1
    have "PATCH db \<lparr> bookingId = AnId (d_id b), action = Some a, roomId = rm \<rparr>
        = patch_response db
            (findByIdAndUpdate (AnId (d_id b)) (\<lambda>b. b\<lparr> d_status := Some ''checked_in'' \<rparr>) db)"
      by (simp add: PATCH_def 1)
    with patch_response_hit [OF assms(1), of "''checked_in''"] 1(2) show ?thesis by simp
  next
    case 2
    have "PATCH db \<lparr> bookingId = AnId (d_id b), action = Some a, roomId = rm \<rparr>
        = patch_response db
            (findByIdAndUpdate (AnId (d_id b)) (\<lambda>b. b\<lparr> d_status := Some ''checked_out'' \<rparr>) db)"
      by (simp add: PATCH_def 2)
    with patch_response_hit [OF assms(1), of "''checked_out''"] 2(2) show ?thesis by simp
  qed
qed

text \<open>
  C9. The schema declares the statuses \<^verbatim>\<open>booked\<close>, \<^verbatim>\<open>checkin\<close>, \<^verbatim>\<open>checkout\<close> and
  \<^verbatim>\<open>cancel\<close>; \<^verbatim>\<open>checked_in\<close> and \<^verbatim>\<open>checked_out\<close> are not among them. The check-in and
  check-out actions on a stored booking write these two values, so after either action the
  collection holds a booking whose status is outside the declared enumeration.
\<close>

theorem status_update_leaves_enum:
  "set status_enum = {''booked'', ''checkin'', ''checkout'', ''cancel''}
   \<and> ''checked_in'' \<notin> set status_enum \<and> ''checked_out'' \<notin> set status_enum
   \<and> (\<forall>b \<in> set db.
        (\<exists>u. fst (PATCH db \<lparr> bookingId = AnId (d_id b), action = Some ''checkin'', roomId = rm \<rparr>)
                = Json (Some u)
              \<and> d_status u = Some ''checked_in''
              \<and> u \<in> set (snd (PATCH db \<lparr> bookingId = AnId (d_id b), action = Some ''checkin'',
                                           roomId = rm \<rparr>)))
      \<and> \<not> status_in_enum
            (snd (PATCH db \<lparr> bookingId = AnId (d_id b), action = Some ''checkin'', roomId = rm \<rparr>))
      \<and> (\<exists>u. fst (PATCH db \<lparr> bookingId = AnId (d_id b), action = Some ''checkout'', roomId = rm \<rparr>)
                = Json (Some u)
              \<and> d_status u = Some ''checked_out''
              \<and> u \<in> set (snd (PATCH db \<lparr> bookingId = AnId (d_id b), action = Some ''checkout'',
                                           roomId = rm \<rparr>)))
      \<and> \<not> status_in_enum
            (snd (PATCH db \<lparr> bookingId = AnId (d_id b), action = Some ''checkout'', roomId = rm \<rparr>)))"
proof -
  have viol: "\<not> status_in_enum xs" if "u \<in> set xs" "d_status u = Some s" "s \<notin> set status_enum"
    for u xs s
    unfolding status_in_enum_def using that by force
  have main: "(\<exists>u. fst (PATCH db \<lparr> bookingId = AnId (d_id b), action = Some a, roomId = rm \<rparr>)
                = Json (Some u)
              \<and> d_status u = Some s
              \<and> u \<in> set (snd (PATCH db \<lparr> bookingId = AnId (d_id b), action = Some a, roomId = rm \<rparr>)))
      \<and> \<not> status_in_enum
            (snd (PATCH db \<lparr> bookingId = AnId (d_id b), action = Some a, roomId = rm \<rparr>))"
    if "b \<in> set db"
       "(a, s) \<in> {(''checkin'', ''checked_in''), (''checkout'', ''checked_out'')}" for b a s
  proof -
    from PATCH_status [OF that, of rm] obtain u where u:
      "PATCH db \<lparr> bookingId = AnId (d_id b), action = Some a, roomId = rm \<rparr>
               = (Json (Some u), snd (PATCH db \<lparr> bookingId = AnId (d_id b), action = Some a, roomId = rm \<rparr>))"
      "d_status u = Some s"
      "u \<in> set (snd (PATCH db \<lparr> bookingId = AnId (d_id b), action = Some a, roomId = rm \<rparr>))"
      by blast
    from that(2) not_in_enum have "s \<notin> set status_enum" by auto
    from viol [OF u(3) u(2) this] u show ?thesis by (metis fst_conv)
  qed
  have "\<forall>b \<in> set db.
        (\<exists>u. fst (PATCH db \<lparr> bookingId = AnId (d_id b), action = Some ''checkin'', roomId = rm \<rparr>)
                = Json (Some u)
              \<and> d_status u = Some ''checked_in''
              \<and> u \<in> set (snd (PATCH db \<lparr> bookingId = AnId (d_id b), action = Some ''checkin'',
                                           roomId = rm \<rparr>)))
      \<and> \<not> status_in_enum
            (snd (PATCH db \<lparr> bookingId = AnId (d_id b), action = Some ''checkin'', roomId = rm \<rparr>))
      \<and> (\<exists>u. fst (PATCH db \<lparr> bookingId = AnId (d_id b), action = Some ''checkout'', roomId = rm \<rparr>)
                = Json (Some u)
              \<and> d_status u = Some ''checked_out''
              \<and> u \<in> set (snd (PATCH db \<lparr> bookingId = AnId (d_id b), action = Some ''checkout'',
                                           roomId = rm \<rparr>)))
      \<and> \<not> status_in_enum
            (snd (PATCH db \<lparr> bookingId = AnId (d_id b), action = Some ''checkout'', roomId = rm \<rparr>))"
    using main [of _ "''checkin''" "''checked_in''"] main [of _ "''checkout''" "''checked_out''"]
    by simp
  with status_enum_set not_in_enum show ?thesis by blast
qed

theorem status_update_leaves_enum_witness:
  "status_in_enum [ex_doc] \<and> ex_doc \<in> set [ex_doc] \<and> d_id ex_doc = ObjectId 1
   \<and> \<not> status_in_enum
         (snd (PATCH [ex_doc] \<lparr> bookingId = AnId (ObjectId 1), action = Some ''checkin'',
                                 roomId = NoId \<rparr>))
   \<and> \<not> status_in_enum
         (snd (PATCH [ex_doc] \<lparr> bookingId = AnId (ObjectId 1), action = Some ''checkout'',
                                 roomId = NoId \<rparr>))"
proof -
  have i: "status_in_enum [ex_doc]"
    by (simp add: status_in_enum_def status_enum_def ex_doc_def)
  have m: "ex_doc \<in> set [ex_doc]" by simp
  have d: "d_id ex_doc = ObjectId 1" by (simp add: ex_doc_def)
  from status_update_leaves_enum [of "[ex_doc]" NoId] m
  have "\<not> status_in_enum
         (snd (PATCH [ex_doc] \<lparr> bookingId = AnId (d_id ex_doc), action = Some ''checkin'', roomId = NoId \<rparr>))"
    and "\<not> status_in_enum
         (snd (PATCH [ex_doc] \<lparr> bookingId = AnId (d_id ex_doc), action = Some ''checkout'', roomId = NoId \<rparr>))"
    by blast+
  with i m d show ?thesis unfolding d by blast
qed

end
